theory Spec2Isabelle
  imports Main "HOL-Library.AList"
begin

section \<open>Python values, exceptions and the console\<close>

text \<open>
  A dictionary entry read with \<^verbatim>\<open>d.get(k)\<close> or \<^verbatim>\<open>d.get(k, default)\<close> is in one of three
  states: the key is missing, the key holds \<^verbatim>\<open>None\<close>, or the key holds a value.
\<close>

datatype 'a field = Absent | PyNone | Val 'a

fun py_get :: "'a field \<Rightarrow> 'a option" where
  "py_get Absent = None"
| "py_get PyNone = None"
| "py_get (Val v) = Some v"

fun py_get_or :: "'a field \<Rightarrow> 'a \<Rightarrow> 'a option" where
  "py_get_or Absent d = Some d"
| "py_get_or PyNone d = None"
| "py_get_or (Val v) d = Some v"

text \<open>Truthiness of an optional number and of an optional string.\<close>

fun truthy_int :: "int option \<Rightarrow> bool" where
  "truthy_int None = False"
| "truthy_int (Some n) = (n \<noteq> 0)"

fun truthy_str :: "string option \<Rightarrow> bool" where
  "truthy_str None = False"
| "truthy_str (Some s) = (s \<noteq> [])"

text \<open>
  \<open>Exception m\<close> is any instance of a subclass of Python's \<^verbatim>\<open>Exception\<close>, with \<open>m\<close> its
  \<^verbatim>\<open>str\<close>; \<open>KeyboardInterrupt\<close> derives from \<^verbatim>\<open>BaseException\<close> only, so that
  \<^verbatim>\<open>except Exception\<close> does not catch it and a bare \<^verbatim>\<open>except:\<close> does.
\<close>

datatype exn = Exception string | KeyboardInterrupt

text \<open>
  What the user does at one call of \<^verbatim>\<open>input()\<close>: types a line, or presses Ctrl-C. When the
  list of inputs is used up, standard input is at its end and \<^verbatim>\<open>input()\<close> raises
  \<^verbatim>\<open>EOFError\<close>.
\<close>

datatype input = Line string | Interrupt

definition EOFError :: exn where
  "EOFError = Exception ''EOF when reading a line''"

subsection \<open>String methods\<close>

text \<open>
  Strings are the UTF-8 bytes of the text. \<open>whitespace\<close> lists the encodings of the characters
  for which \<^verbatim>\<open>str.isspace()\<close> holds: the ASCII blanks and controls, U+0085, U+00A0, U+1680,
  U+2000 to U+200A, U+2028, U+2029, U+202F, U+205F and U+3000.
\<close>

definition whitespace :: "string list" where
  "whitespace =
     [ [CHR 0x09], [CHR 0x0A], [CHR 0x0B],
      [CHR 0x0C], [CHR 0x0D], [CHR 0x1C],
      [CHR 0x1D], [CHR 0x1E], [CHR 0x1F],
      [CHR 0x20], [CHR 0xC2, CHR 0x85], [CHR 0xC2, CHR 0xA0],
      [CHR 0xE1, CHR 0x9A, CHR 0x80], [CHR 0xE2, CHR 0x80, CHR 0x80], [CHR 0xE2, CHR 0x80, CHR 0x81],
      [CHR 0xE2, CHR 0x80, CHR 0x82], [CHR 0xE2, CHR 0x80, CHR 0x83], [CHR 0xE2, CHR 0x80, CHR 0x84],
      [CHR 0xE2, CHR 0x80, CHR 0x85], [CHR 0xE2, CHR 0x80, CHR 0x86], [CHR 0xE2, CHR 0x80, CHR 0x87],
      [CHR 0xE2, CHR 0x80, CHR 0x88], [CHR 0xE2, CHR 0x80, CHR 0x89], [CHR 0xE2, CHR 0x80, CHR 0x8A],
      [CHR 0xE2, CHR 0x80, CHR 0xA8], [CHR 0xE2, CHR 0x80, CHR 0xA9], [CHR 0xE2, CHR 0x80, CHR 0xAF],
      [CHR 0xE2, CHR 0x81, CHR 0x9F], [CHR 0xE3, CHR 0x80, CHR 0x80] ]"

text \<open>The number of bytes of the entry of \<open>table\<close> that \<open>s\<close> starts with (0 when there is
  none).\<close>

definition space_width :: "string list \<Rightarrow> string \<Rightarrow> nat" where
  "space_width table s =
     (case find (\<lambda>w. take (length w) s = w) table of None \<Rightarrow> 0 | Some w \<Rightarrow> length w)"

fun lstrip :: "string list \<Rightarrow> string \<Rightarrow> string" where
  "lstrip table [] = []"
| "lstrip table (c # cs) =
     (case space_width table (c # cs) of
        0 \<Rightarrow> c # cs
      | Suc k \<Rightarrow> lstrip table (drop k cs))"

text \<open>\<^verbatim>\<open>s.strip()\<close>: the whitespace characters are removed at the front, then at the back
  (on the reversed bytes, against the reversed encodings).\<close>

definition strip :: "string \<Rightarrow> string" where
  "strip s = rev (lstrip (map rev whitespace) (rev (lstrip whitespace s)))"

text \<open>
  \<^verbatim>\<open>lower\<close> and \<^verbatim>\<open>upper\<close> change the ASCII letters. The script compares a lowered string
  with ASCII words only (\<^verbatim>\<open>q\<close>, \<^verbatim>\<open>y\<close>, \<^verbatim>\<open>yes\<close>, \<^verbatim>\<open>s\<close>, \<^verbatim>\<open>si\<close>), and no character outside
  ASCII has one of their letters as its lower case, so these comparisons come out as in
  Python.
\<close>

definition lower_char :: "char \<Rightarrow> char" where
  "lower_char c =
     (case map_of (zip ''ABCDEFGHIJKLMNOPQRSTUVWXYZ'' ''abcdefghijklmnopqrstuvwxyz'') c of
        None \<Rightarrow> c | Some d \<Rightarrow> d)"

definition upper_char :: "char \<Rightarrow> char" where
  "upper_char c =
     (case map_of (zip ''abcdefghijklmnopqrstuvwxyz'' ''ABCDEFGHIJKLMNOPQRSTUVWXYZ'') c of
        None \<Rightarrow> c | Some d \<Rightarrow> d)"

definition lower :: "string \<Rightarrow> string" where
  "lower s = map lower_char s"

definition upper :: "string \<Rightarrow> string" where
  "upper s = map upper_char s"

text \<open>\<^verbatim>\<open>needle in hay\<close> on strings.\<close>

fun contains :: "string \<Rightarrow> string \<Rightarrow> bool" where
  "contains needle [] = (needle = [])"
| "contains needle (c # cs) =
     (take (length needle) (c # cs) = needle \<or> contains needle cs)"

text \<open>\<^verbatim>\<open>str(n)\<close> for an integer.\<close>

fun str_nat :: "nat \<Rightarrow> string" where
  "str_nat n =
     (if n < 10 then [''0123456789'' ! n]
      else str_nat (n div 10) @ [''0123456789'' ! (n mod 10)])"

declare str_nat.simps [simp del]

definition str_int :: "int \<Rightarrow> string" where
  "str_int i = (if i < 0 then CHR ''-'' # str_nat (nat (- i)) else str_nat (nat i))"

text \<open>A word between apostrophes, as in the texts of Python's exceptions.\<close>

definition quoted :: "string \<Rightarrow> string" where
  "quoted s = CHR 0x27 # s @ [CHR 0x27]"

text \<open>
  \<^verbatim>\<open>xs[i]\<close>: a negative index counts from the end, and an index outside the list raises
  \<^verbatim>\<open>IndexError\<close>.
\<close>

definition py_index :: "'a list \<Rightarrow> int \<Rightarrow> exn + 'a" where
  "py_index xs i =
     (if 0 \<le> i \<and> i < int (length xs) then Inr (xs ! nat i)
      else if i < 0 \<and> - int (length xs) \<le> i then Inr (xs ! nat (int (length xs) + i))
      else Inl (Exception ''list index out of range''))"

section \<open>The extraction library\<close>

text \<open>
  A format dictionary of the library. The fields the script reads with \<^verbatim>\<open>get\<close> may be missing
  or hold \<^verbatim>\<open>None\<close>; \<open>format_id\<close>, which the script reads by subscript, is a string or is
  missing (\<open>None\<close>). Numbers are integers.
\<close>

record fmt =
  format_id :: "string option"
  height :: "int field"
  width :: "int field"
  fps :: "int field"
  vcodec :: "string field"
  acodec :: "string field"
  ext :: "string field"
  filesize :: "int field"
  abr :: "int field"

text \<open>
  The information dictionary of a video or playlist: the fields of the selected format, and
  those of the video. \<open>entries\<close> holds the number of entries of a playlist.
\<close>

record info = fmt +
  title :: "string field"
  duration :: "int field"
  uploader :: "string field"
  view_count :: "int field"
  formats :: "fmt list field"
  requested_formats :: "fmt list field"
  entries :: "nat field"

text \<open>Option dictionaries, in insertion order. \<open>OHooks\<close> is \<^verbatim>\<open>[self._progress_hook]\<close>;
  \<open>OTemplate d t\<close> is \<^verbatim>\<open>str(d / t)\<close> for the folder \<open>d\<close>.\<close>

datatype optval =
    OBool bool
  | OStr string
  | OStrs "string list"
  | OTemplate string string
  | OHooks
  | ODicts "(string \<times> string) list list"

type_synonym opts = "(string \<times> optval) list"

text \<open>The place in the script of a call to \<^verbatim>\<open>extract_info(url, download=False)\<close>.\<close>

datatype site = SmartInfo | Probe | ManualInfo | PlaylistInfo

text \<open>
  The world outside the script: what each library call answers (a value or an exception),
  whether the download folder can be created, and Python's \<^verbatim>\<open>int()\<close> on a string
  (\<open>None\<close> for \<^verbatim>\<open>ValueError\<close>).
\<close>

record env =
  extract_info :: "site \<Rightarrow> opts \<Rightarrow> string \<Rightarrow> exn + info option"
  download :: "opts \<Rightarrow> string list \<Rightarrow> exn + unit"
  mkdir :: "string \<Rightarrow> exn + unit"
  py_int :: "string \<Rightarrow> int option"

section \<open>Dictionaries the script builds\<close>

text \<open>An entry of \<^verbatim>\<open>available_formats\<close> (\<^verbatim>\<open>test_format_availability\<close>).\<close>

record smart_format =
  selector :: string
  description :: string
  resolution :: string
  s_height :: int
  s_fps :: "int option"
  codec :: "string option"
  ftype :: string
  display :: string

text \<open>An entry of the lists of \<^verbatim>\<open>get_manual_formats\<close>; \<open>m_height\<close>, \<open>m_fps\<close>, \<open>m_vcodec\<close> are
  unused in an audio entry, \<open>m_abr\<close> in the others, \<open>m_acodec\<close> in a video-only entry.\<close>

record manual_format =
  m_format_id :: string
  m_height :: int
  m_ext :: "string option"
  m_fps :: "int option"
  m_filesize :: "int option"
  m_vcodec :: "string option"
  m_acodec :: "string option"
  m_abr :: "int option"

record manual_formats =
  combined :: "manual_format list"
  video :: "manual_format list"
  audio :: "manual_format list"

section \<open>Console output\<close>

text \<open>
  One constructor for each \<^verbatim>\<open>print\<close> (or run of constant \<^verbatim>\<open>print\<close>s) and each prompt of the
  script, carrying the values the text is formatted from.
\<close>

datatype msg =
    MsgDetecting
  | MsgDetectError string
  | MsgNoInfo
  | MsgTitle "string field"
  | MsgDuration "int field"
  | MsgChannel "string field"
  | MsgViews "int field"
  | MsgDetectedHeader
  | MsgSmartHeader
  | MsgSmartRow nat smart_format
  | MsgCombinedHeader
  | MsgCombinedRow nat manual_format string
  | MsgVideoHeader
  | MsgVideoRow nat manual_format string
  | MsgAudioHeader
  | MsgAudioRow nat manual_format string
  | MsgQuickHeader
  | MsgQuickRow nat string
  | MsgNote
  | PromptChoice nat
  | MsgSelected string
  | MsgInvalidOption nat
  | MsgNotNumber
  | MsgExiting
  | MsgCancelled
  | MsgStart string string
  | MsgDone
  | MsgDownloadError string
  | MsgPlaylistTitle "string field"
  | MsgPlaylistVideos nat
  | PromptConfirm
  | MsgStartPlaylist string string
  | MsgPlaylistDone
  | MsgPlaylistError string
  | MsgAudioStart string
  | MsgAudioDone
  | MsgAudioError string
  | MsgBanner
  | PromptURL
  | MsgURLRequired
  | MsgInvalidURL
  | MsgInterrupted
  | MsgUnexpected string

text \<open>What the script does to the world, in order.\<close>

datatype event =
    Print msg
  | Input msg
  | Mkdir string
  | ExtractInfo site opts string
  | Download opts "string list"

section \<open>Quality detection\<close>

text \<open>The options of the metadata queries (\<^verbatim>\<open>{'quiet': True, 'no_warnings': True}\<close>).\<close>

definition basic_opts :: opts where
  "basic_opts = [(''quiet'', OBool True), (''no_warnings'', OBool True)]"

text \<open>The candidates of \<^verbatim>\<open>test_format_availability\<close>; the bytes \<open>0xC3 0xA1\<close> are a-acute in UTF-8.\<close>

definition test_formats :: "(string \<times> string) list" where
  "test_formats =
     [(''best'', ''Mejor calidad autom'' @ [CHR 0xC3, CHR 0xA1] @ ''tica''),
      (''bestvideo+bestaudio/best'', ''Mejor video + audio''),
      (''worst'', ''Peor calidad''),
      (''bestvideo[height<=2160]+bestaudio/best'', ''Hasta 4K (2160p)''),
      (''bestvideo[height<=1440]+bestaudio/best'', ''Hasta 2K (1440p)''),
      (''bestvideo[height<=1080]+bestaudio/best'', ''Hasta 1080p''),
      (''bestvideo[height<=720]+bestaudio/best'', ''Hasta 720p''),
      (''bestvideo[height<=480]+bestaudio/best'', ''Hasta 480p''),
      (''bestvideo[height<=360]+bestaudio/best'', ''Hasta 360p'')]"

definition test_opts :: opts where
  "test_opts =
     [(''quiet'', OBool True), (''no_warnings'', OBool True), (''simulate'', OBool True),
      (''forceprint'', OStrs [''format_id'', ''resolution'', ''ext'', ''filesize_approx''])]"

text \<open>The loop over \<^verbatim>\<open>requested_formats\<close>: the last format with a video codec.\<close>

fun find_video :: "fmt list \<Rightarrow> fmt option \<Rightarrow> fmt option" where
  "find_video [] video_format = video_format"
| "find_video (f # fs) video_format =
     find_video fs
       (if py_get_or (vcodec f) ''none'' \<noteq> Some ''none'' then Some f else video_format)"

definition fps_info :: "int option \<Rightarrow> string" where
  "fps_info f = (case f of Some n \<Rightarrow> (if n \<noteq> 0 then '' @'' @ str_int n @ ''fps'' else [])
                         | None \<Rightarrow> [])"

definition codec_info :: "string option \<Rightarrow> string" where
  "codec_info v =
     (case v of Some s \<Rightarrow> (if s \<noteq> [] then '' ('' @ takeWhile (\<lambda>c. c \<noteq> CHR ''.'') s @ '')''
                            else [])
              | None \<Rightarrow> [])"

definition int_or0 :: "int option \<Rightarrow> int" where
  "int_or0 h = (case h of Some n \<Rightarrow> n | None \<Rightarrow> 0)"

text \<open>
  The body of the inner \<^verbatim>\<open>try\<close> after the probe answered \<open>test_info\<close>: the entries it
  appends to \<^verbatim>\<open>available_formats\<close> (none or one), or the exception it raises.
\<close>

definition probe_entry :: "string \<Rightarrow> string \<Rightarrow> info \<Rightarrow> exn + smart_format list" where
  "probe_entry format_selector descr test_info =
     (case requested_formats test_info of
        PyNone \<Rightarrow> Inl (Exception (quoted ''NoneType'' @ '' object is not iterable''))
      | Val fmts \<Rightarrow>
          (case find_video fmts None of
             None \<Rightarrow> Inr []
           | Some video_format \<Rightarrow>
               (let h = py_get (height video_format);
                    w = py_get (width video_format);
                    f = py_get (fps video_format);
                    vc = py_get_or (vcodec video_format) [];
                    res = (if truthy_int w \<and> truthy_int h
                           then str_int (int_or0 w) @ ''x'' @ str_int (int_or0 h)
                           else if truthy_int h then str_int (int_or0 h) @ ''p''
                           else ''N/A'')
                in Inr [\<lparr>selector = format_selector, description = descr, resolution = res,
                         s_height = int_or0 h, s_fps = f, codec = vc,
                         ftype = ''combined_separate'',
                         display = res @ fps_info f @ codec_info vc\<rparr>]))
      | Absent \<Rightarrow>
          (let h = py_get (height test_info);
               w = py_get (width test_info);
               f = py_get (fps test_info);
               vc = py_get_or (vcodec test_info) [];
               ac = py_get_or (acodec test_info) []
           in if truthy_int h then
                (let res = (if truthy_int w \<and> truthy_int h
                            then str_int (int_or0 w) @ ''x'' @ str_int (int_or0 h)
                            else str_int (int_or0 h) @ ''p'');
                     format_type = (if truthy_str ac \<and> ac \<noteq> Some ''none''
                                    then ''combined_direct'' else ''video_only'')
                 in Inr [\<lparr>selector = format_selector, description = descr, resolution = res,
                          s_height = int_or0 h, s_fps = f, codec = vc,
                          ftype = format_type,
                          display = res @ fps_info f @ codec_info vc\<rparr>])
              else Inr []))"

text \<open>
  The inner \<^verbatim>\<open>try\<close> for one candidate, \<open>topts\<close> being \<^verbatim>\<open>test_opts\<close> with the candidate as
  \<^verbatim>\<open>'format'\<close>: the entries appended to \<^verbatim>\<open>available_formats\<close>. Whatever is raised in
  the body (also by \<^verbatim>\<open>'requested_formats' in None\<close>) is swallowed by the bare
  \<^verbatim>\<open>except: continue\<close>.
\<close>

definition probe_one ::
  "env \<Rightarrow> string \<Rightarrow> opts \<Rightarrow> string \<Rightarrow> string \<Rightarrow> smart_format list" where
  "probe_one E url topts format_selector descr =
     (case extract_info E Probe topts url of
        Inl e \<Rightarrow> []
      | Inr None \<Rightarrow> []
      | Inr (Some test_info) \<Rightarrow>
          (case probe_entry format_selector descr test_info of
             Inl e \<Rightarrow> []
           | Inr new \<Rightarrow> new))"

text \<open>
  \<^verbatim>\<open>for format_selector, description in test_formats\<close>: each pass sets
  \<^verbatim>\<open>test_opts['format'] = format_selector\<close> in the one dictionary and calls the probe.
\<close>

fun probe_loop ::
  "env \<Rightarrow> string \<Rightarrow> (string \<times> string) list \<Rightarrow> opts \<Rightarrow> smart_format list
     \<Rightarrow> event list \<times> smart_format list" where
  "probe_loop E url [] topts available_formats = ([], available_formats)"
| "probe_loop E url ((format_selector, descr) # rest) topts available_formats =
     (let topts' = AList.update ''format'' (OStr format_selector) topts;
          found = probe_one E url topts' format_selector descr
      in case probe_loop E url rest topts' (available_formats @ found) of
           (ev, result) \<Rightarrow> (ExtractInfo Probe topts' url # ev, result))"

text \<open>
  \<^verbatim>\<open>test_format_availability\<close>: \<open>Inr None\<close> is the return of \<^verbatim>\<open>None\<close> from the outer handler
  (\<^verbatim>\<open>except Exception\<close>), \<open>Inr (Some (info, available_formats))\<close> the returned dictionary.
  A metadata answer of \<^verbatim>\<open>None\<close> makes \<^verbatim>\<open>info.get\<close> raise \<^verbatim>\<open>AttributeError\<close>.
\<close>

definition test_format_availability ::
  "env \<Rightarrow> string \<Rightarrow> event list \<times> (exn + (info \<times> smart_format list) option)" where
  "test_format_availability E url =
     (let start = [Print MsgDetecting, ExtractInfo SmartInfo basic_opts url]
      in case extract_info E SmartInfo basic_opts url of
           Inl (Exception m) \<Rightarrow> (start @ [Print (MsgDetectError m)], Inr None)
         | Inl KeyboardInterrupt \<Rightarrow> (start, Inl KeyboardInterrupt)
         | Inr None \<Rightarrow>
             (start @ [Print (MsgDetectError (quoted ''NoneType''
                          @ '' object has no attribute '' @ quoted ''get''))],
              Inr None)
         | Inr (Some info) \<Rightarrow>
             (case probe_loop E url test_formats test_opts [] of
                (ev, available_formats) \<Rightarrow>
                  (start @ ev, Inr (Some (info, available_formats)))))"

section \<open>The formats the library lists\<close>

definition no_formats :: manual_formats where
  "no_formats = \<lparr>combined = [], video = [], audio = []\<rparr>"

text \<open>
  The loop \<^verbatim>\<open>for f in formats\<close> of \<^verbatim>\<open>get_manual_formats\<close>; \<^verbatim>\<open>f['format_id']\<close> raises
  \<^verbatim>\<open>KeyError\<close> on a dictionary without the key.
\<close>

fun classify :: "fmt list \<Rightarrow> manual_formats \<Rightarrow> exn + manual_formats" where
  "classify [] acc = Inr acc"
| "classify (f # fs) acc =
     (let h = py_get (height f);
          vc = py_get_or (vcodec f) ''none'';
          ac = py_get_or (acodec f) ''none''
      in if vc \<noteq> Some ''none'' \<and> ac \<noteq> Some ''none'' \<and> truthy_int h then
           (case format_id f of
              None \<Rightarrow> Inl (Exception (quoted ''format_id''))
            | Some fid \<Rightarrow>
                classify fs (acc\<lparr>combined := combined acc @
                  [\<lparr>m_format_id = fid, m_height = int_or0 h,
                    m_ext = py_get_or (ext f) ''unknown'', m_fps = py_get (fps f),
                    m_filesize = py_get_or (filesize f) 0, m_vcodec = vc, m_acodec = ac,
                    m_abr = None\<rparr>]\<rparr>))
         else if vc \<noteq> Some ''none'' \<and> truthy_int h then
           (case format_id f of
              None \<Rightarrow> Inl (Exception (quoted ''format_id''))
            | Some fid \<Rightarrow>
                classify fs (acc\<lparr>video := video acc @
                  [\<lparr>m_format_id = fid, m_height = int_or0 h,
                    m_ext = py_get_or (ext f) ''unknown'', m_fps = py_get (fps f),
                    m_filesize = py_get_or (filesize f) 0, m_vcodec = vc, m_acodec = None,
                    m_abr = None\<rparr>]\<rparr>))
         else if ac \<noteq> Some ''none'' then
           (case format_id f of
              None \<Rightarrow> Inl (Exception (quoted ''format_id''))
            | Some fid \<Rightarrow>
                classify fs (acc\<lparr>audio := audio acc @
                  [\<lparr>m_format_id = fid, m_height = 0,
                    m_ext = py_get_or (ext f) ''unknown'', m_fps = None,
                    m_filesize = py_get_or (filesize f) 0, m_vcodec = None, m_acodec = ac,
                    m_abr = py_get (abr f)\<rparr>]\<rparr>))
         else classify fs acc)"

text \<open>
  \<^verbatim>\<open>list.sort(key=..., reverse=True)\<close> is stable and descending: a stable ascending sort on
  the negated key. Sorting two or more audio entries compares every \<^verbatim>\<open>abr\<close>, and a
  comparison with \<^verbatim>\<open>None\<close> raises \<^verbatim>\<open>TypeError\<close>.
\<close>

definition sort_audio :: "manual_format list \<Rightarrow> exn + manual_format list" where
  "sort_audio xs =
     (if 2 \<le> length xs \<and> (\<exists>x \<in> set xs. m_abr x = None)
      then Inl (Exception (quoted ''<'' @ '' not supported between instances of ''
                           @ quoted ''NoneType'' @ '' and '' @ quoted ''NoneType''))
      else Inr (sort_key (\<lambda>x. - int_or0 (m_abr x)) xs))"

text \<open>
  \<^verbatim>\<open>get_manual_formats\<close>: every exception, of the library or of the body, ends in the bare
  \<^verbatim>\<open>except:\<close> that returns three empty lists.
\<close>

definition get_manual_formats :: "env \<Rightarrow> string \<Rightarrow> event list \<times> manual_formats" where
  "get_manual_formats E url =
     ([ExtractInfo ManualInfo basic_opts url],
      (case extract_info E ManualInfo basic_opts url of
         Inl e \<Rightarrow> no_formats
       | Inr None \<Rightarrow> no_formats
       | Inr (Some info) \<Rightarrow>
           (case py_get_or (formats info) [] of
              None \<Rightarrow> no_formats
            | Some fs \<Rightarrow>
                (case classify fs no_formats of
                   Inl e \<Rightarrow> no_formats
                 | Inr m \<Rightarrow>
                     (case sort_audio (audio m) of
                        Inl e \<Rightarrow> no_formats
                      | Inr sorted_audio \<Rightarrow>
                          \<lparr>combined = sort_key (\<lambda>x. - m_height x) (combined m),
                           video = sort_key (\<lambda>x. - m_height x) (video m),
                           audio = sorted_audio\<rparr>)))))"

section \<open>The menu of \<^verbatim>\<open>select_quality\<close>\<close>

text \<open>The loop that removes duplicate heights, with \<^verbatim>\<open>seen_heights\<close> and
  \<^verbatim>\<open>unique_formats\<close> as accumulators.\<close>

fun unique_by_height ::
  "smart_format list \<Rightarrow> int set \<Rightarrow> smart_format list \<Rightarrow> smart_format list" where
  "unique_by_height [] seen_heights unique_formats = unique_formats"
| "unique_by_height (f # rest) seen_heights unique_formats =
     (if s_height f > 0 \<and> s_height f \<notin> seen_heights
      then unique_by_height rest (insert (s_height f) seen_heights) (unique_formats @ [f])
      else unique_by_height rest seen_heights unique_formats)"

text \<open>\<^verbatim>\<open>unique_formats\<close> after \<^verbatim>\<open>unique_formats.sort(key=height, reverse=True)\<close>.\<close>

definition unique_formats :: "smart_format list \<Rightarrow> smart_format list" where
  "unique_formats available_formats =
     sort_key (\<lambda>x. - s_height x) (unique_by_height available_formats {} [])"

text \<open>The formats of the first section that get a line
  (\<^verbatim>\<open>if fmt['height'] > 0\<close> inside the printing loop).\<close>

definition smart_section :: "smart_format list \<Rightarrow> smart_format list" where
  "smart_section available_formats =
     filter (\<lambda>f. s_height f > 0) (unique_formats available_formats)"

text \<open>The menu being built: \<^verbatim>\<open>all_options\<close> and \<^verbatim>\<open>option_num\<close>.\<close>

type_synonym menu = "string list \<times> nat"

text \<open>
  A printing loop of the menu. \<open>row\<close> gives, for the number and the entry, the line printed
  and the selector appended, or the exception that formatting the line raises.
\<close>

fun rows ::
  "(nat \<Rightarrow> 'a \<Rightarrow> exn + msg \<times> string) \<Rightarrow> 'a list \<Rightarrow> menu \<Rightarrow> event list \<times> (exn + menu)" where
  "rows row [] m = ([], Inr m)"
| "rows row (x # xs) (all_options, option_num) =
     (case row option_num x of
        Inl e \<Rightarrow> ([], Inl e)
      | Inr (line, sel) \<Rightarrow>
          (case rows row xs (all_options @ [sel], option_num + 1) of
             (ev, r) \<Rightarrow> (Print line # ev, r)))"

text \<open>One statement after another: the second runs unless the first raised.\<close>

definition and_then ::
  "event list \<times> (exn + menu) \<Rightarrow> (menu \<Rightarrow> event list \<times> (exn + menu))
     \<Rightarrow> event list \<times> (exn + menu)" where
  "and_then a f =
     (case a of
        (ev, Inl e) \<Rightarrow> (ev, Inl e)
      | (ev, Inr m) \<Rightarrow> (case f m of (ev', r) \<Rightarrow> (ev @ ev', r)))"

text \<open>A section of library formats: skipped when the list is empty, else a header and the
  first five entries.\<close>

definition manual_section ::
  "msg \<Rightarrow> (nat \<Rightarrow> manual_format \<Rightarrow> exn + msg \<times> string) \<Rightarrow> manual_format list \<Rightarrow> menu
     \<Rightarrow> event list \<times> (exn + menu)" where
  "manual_section header row xs m =
     (if xs = [] then ([], Inr m)
      else (case rows row (take 5 xs) m of (ev, r) \<Rightarrow> (Print header # ev, r)))"

definition smart_row :: "nat \<Rightarrow> smart_format \<Rightarrow> exn + msg \<times> string" where
  "smart_row n f = Inr (MsgSmartRow n f, selector f)"

text \<open>\<^verbatim>\<open>fmt['ext'].upper()\<close> raises \<^verbatim>\<open>AttributeError\<close> when the extension is \<^verbatim>\<open>None\<close>.\<close>

definition ext_upper :: "manual_format \<Rightarrow> exn + string" where
  "ext_upper f =
     (case m_ext f of
        None \<Rightarrow> Inl (Exception (quoted ''NoneType'' @ '' object has no attribute ''
                                @ quoted ''upper''))
      | Some e \<Rightarrow> Inr (upper e))"

definition combined_row :: "nat \<Rightarrow> manual_format \<Rightarrow> exn + msg \<times> string" where
  "combined_row n f =
     (case ext_upper f of
        Inl e \<Rightarrow> Inl e
      | Inr e \<Rightarrow> Inr (MsgCombinedRow n f e, m_format_id f))"

definition video_row :: "nat \<Rightarrow> manual_format \<Rightarrow> exn + msg \<times> string" where
  "video_row n f =
     (case ext_upper f of
        Inl e \<Rightarrow> Inl e
      | Inr e \<Rightarrow> Inr (MsgVideoRow n f e, m_format_id f @ ''+bestaudio''))"

definition audio_row :: "nat \<Rightarrow> manual_format \<Rightarrow> exn + msg \<times> string" where
  "audio_row n f =
     (case ext_upper f of
        Inl e \<Rightarrow> Inl e
      | Inr e \<Rightarrow> Inr (MsgAudioRow n f e, m_format_id f))"

text \<open>The quick options; the descriptions start with an emoji and are in UTF-8.\<close>

definition quick_options :: "(string \<times> string) list" where
  "quick_options =
     [(''best'',
       [CHR 0xF0, CHR 0x9F, CHR 0x9A, CHR 0x80] @ '' Mejor calidad autom''
         @ [CHR 0xC3, CHR 0xA1] @ ''tica''),
      (''bestvideo+bestaudio/best'',
       [CHR 0xE2, CHR 0xAD, CHR 0x90] @ '' Mejor video + audio (recomendado)''),
      (''worst'',
       [CHR 0xF0, CHR 0x9F, CHR 0x93, CHR 0xB1] @ '' Calidad m'' @ [CHR 0xC3, CHR 0xA1]
         @ ''s baja (m'' @ [CHR 0xC3, CHR 0xB3] @ ''vil)'')]"

definition quick_row :: "nat \<Rightarrow> string \<times> string \<Rightarrow> exn + msg \<times> string" where
  "quick_row n q = Inr (MsgQuickRow n (snd q), fst q)"

text \<open>
  \<^verbatim>\<open>select_quality\<close> from the title lines to the note under the menu: what is printed, and
  \<^verbatim>\<open>all_options\<close> (or the exception raised on the way).
\<close>

definition select_quality_menu ::
  "info \<Rightarrow> smart_format list \<Rightarrow> manual_formats \<Rightarrow> event list \<times> (exn + string list)" where
  "select_quality_menu info available_formats manual =
     (let intro = [Print (MsgTitle (title info)), Print (MsgDuration (duration info)),
                   Print (MsgChannel (uploader info)), Print (MsgViews (view_count info)),
                   Print MsgDetectedHeader, Print MsgSmartHeader];
          built =
            and_then (and_then (and_then (and_then (and_then
              (intro, Inr ([], 1))
              (rows smart_row (smart_section available_formats)))
              (manual_section MsgCombinedHeader combined_row (combined manual)))
              (manual_section MsgVideoHeader video_row (video manual)))
              (manual_section MsgAudioHeader audio_row (audio manual)))
              (\<lambda>m. case rows quick_row quick_options m of
                      (ev, r) \<Rightarrow> (Print MsgQuickHeader # ev, r))
      in case built of
           (ev, Inl e) \<Rightarrow> (ev, Inl e)
         | (ev, Inr (all_options, option_num)) \<Rightarrow> (ev @ [Print MsgNote], Inr all_options))"

section \<open>The interactive picker\<close>

text \<open>
  The \<^verbatim>\<open>while True\<close> loop of \<^verbatim>\<open>select_quality\<close>, one pass for each thing the user does.
  \<open>to_int\<close> is \<^verbatim>\<open>int()\<close>. The result is what was printed and asked, the value returned
  (\<open>None\<close> for leaving) or the exception raised, and the input not yet read.
\<close>

fun select_quality_loop ::
  "(string \<Rightarrow> int option) \<Rightarrow> string list \<Rightarrow> input list
     \<Rightarrow> event list \<times> (exn + string option) \<times> input list" where
  "select_quality_loop to_int all_options [] =
     ([Input (PromptChoice (length all_options))], Inl EOFError, [])"
| "select_quality_loop to_int all_options (Interrupt # rest) =
     ([Input (PromptChoice (length all_options)), Print MsgExiting], Inr None, rest)"
| "select_quality_loop to_int all_options (Line s # rest) =
     (let ask = Input (PromptChoice (length all_options));
          choice = strip s
      in if lower choice = ''q'' then ([ask], Inr None, rest)
         else
           (case to_int choice of
              None \<Rightarrow>
                (case select_quality_loop to_int all_options rest of
                   (ev, r) \<Rightarrow> (ask # Print MsgNotNumber # ev, r))
            | Some c \<Rightarrow>
                (let choice_num = c - 1
                 in if 0 \<le> choice_num \<and> choice_num < int (length all_options) then
                      (case py_index all_options choice_num of
                         Inl e \<Rightarrow> ([ask], Inl e, rest)
                       | Inr selected_format \<Rightarrow>
                           ([ask, Print (MsgSelected selected_format)],
                            Inr (Some selected_format), rest))
                    else
                      (case select_quality_loop to_int all_options rest of
                         (ev, r) \<Rightarrow>
                           (ask # Print (MsgInvalidOption (length all_options)) # ev, r)))))"

definition select_quality ::
  "env \<Rightarrow> string \<Rightarrow> input list \<Rightarrow> event list \<times> (exn + string option) \<times> input list" where
  "select_quality E url inp =
     (case test_format_availability E url of
        (ev1, Inl e) \<Rightarrow> (ev1, Inl e, inp)
      | (ev1, Inr smart_formats) \<Rightarrow>
          (case get_manual_formats E url of
             (ev2, manual) \<Rightarrow>
               (case smart_formats of
                  None \<Rightarrow>
                    (ev1 @ ev2 @ [Print MsgNoInfo], Inr (Some ''bestvideo+bestaudio/best''), inp)
                | Some (info, available_formats) \<Rightarrow>
                    (case select_quality_menu info available_formats manual of
                       (ev3, Inl e) \<Rightarrow> (ev1 @ ev2 @ ev3, Inl e, inp)
                     | (ev3, Inr all_options) \<Rightarrow>
                         (case select_quality_loop (py_int E) all_options inp of
                            (ev4, r) \<Rightarrow> (ev1 @ ev2 @ ev3 @ ev4, r))))))"

section \<open>The downloader\<close>

record downloader =
  download_path :: string
  base_opts :: opts

text \<open>The object after \<^verbatim>\<open>__init__\<close>: the folder and the base options.\<close>

definition new_downloader :: "string \<Rightarrow> downloader" where
  "new_downloader path =
     \<lparr>download_path = path,
      base_opts =
        [(''outtmpl'', OTemplate path ''%(title)s.%(ext)s''),
         (''writeinfojson'', OBool True),
         (''writesubtitles'', OBool True),
         (''writeautomaticsub'', OBool True),
         (''subtitleslangs'', OStrs [''es'', ''en'']),
         (''ignoreerrors'', OBool True),
         (''progress_hooks'', OHooks),
         (''quiet'', OBool True),
         (''no_warnings'', OBool True)]\<rparr>"

text \<open>
  \<^verbatim>\<open>YouTubeDownloader.__init__\<close>: the folder is created
  (\<^verbatim>\<open>mkdir(exist_ok=True)\<close> may raise) and the base options are set.
\<close>

definition YouTubeDownloader :: "env \<Rightarrow> string \<Rightarrow> event list \<times> (exn + downloader)" where
  "YouTubeDownloader E path =
     ([Mkdir path],
      (case mkdir E path of
         Inl e \<Rightarrow> Inl e
       | Inr u \<Rightarrow> Inr (new_downloader path)))"

text \<open>The first lines of \<^verbatim>\<open>download_video\<close> and \<^verbatim>\<open>download_playlist\<close>: the format asked
  for, or the one the user selects.\<close>

definition chosen_format ::
  "env \<Rightarrow> string \<Rightarrow> string option \<Rightarrow> input list
     \<Rightarrow> event list \<times> (exn + string option) \<times> input list" where
  "chosen_format E url format_selector inp =
     (case format_selector of
        None \<Rightarrow> select_quality E url inp
      | Some s \<Rightarrow> ([], Inr (Some s), inp))"

text \<open>
  \<^verbatim>\<open>download_video\<close>. The handler \<^verbatim>\<open>except Exception\<close> prints and returns; a
  \<^verbatim>\<open>KeyboardInterrupt\<close> passes through it.
\<close>

definition download_video ::
  "env \<Rightarrow> downloader \<Rightarrow> string \<Rightarrow> string option \<Rightarrow> input list
     \<Rightarrow> event list \<times> (exn + unit) \<times> input list" where
  "download_video E self url format_selector inp =
     (case chosen_format E url format_selector inp of
        (ev, Inl (Exception m), inp') \<Rightarrow> (ev @ [Print (MsgDownloadError m)], Inr (), inp')
      | (ev, Inl KeyboardInterrupt, inp') \<Rightarrow> (ev, Inl KeyboardInterrupt, inp')
      | (ev, Inr None, inp') \<Rightarrow> (ev @ [Print MsgCancelled], Inr (), inp')
      | (ev, Inr (Some sel), inp') \<Rightarrow>
          (let opts = AList.update ''format'' (OStr sel) (base_opts self);
               ev' = ev @ [Print (MsgStart (download_path self) sel), Download opts [url]]
           in case download E opts [url] of
                Inl (Exception m) \<Rightarrow> (ev' @ [Print (MsgDownloadError m)], Inr (), inp')
              | Inl KeyboardInterrupt \<Rightarrow> (ev', Inl KeyboardInterrupt, inp')
              | Inr u \<Rightarrow> (ev' @ [Print MsgDone], Inr (), inp')))"

text \<open>
  The lines of \<^verbatim>\<open>download_playlist\<close> inside \<^verbatim>\<open>with yt_dlp.YoutubeDL({'quiet': True})\<close>, after
  the library answered \<open>answer\<close>: \<open>Inr True\<close> to go on, \<open>Inr False\<close> for the \<^verbatim>\<open>return\<close>
  after the user declined.
\<close>

definition confirm_playlist ::
  "info option \<Rightarrow> input list \<Rightarrow> event list \<times> (exn + bool) \<times> input list" where
  "confirm_playlist answer inp =
     (case answer of
        None \<Rightarrow> ([], Inl (Exception (''argument of type '' @ quoted ''NoneType''
                                  @ '' is not iterable'')), inp)
      | Some info \<Rightarrow>
          (case entries info of
             Absent \<Rightarrow> ([], Inr True, inp)
           | PyNone \<Rightarrow>
               ([Print (MsgPlaylistTitle (title info))],
                Inl (Exception (''object of type '' @ quoted ''NoneType'' @ '' has no len()'')),
                inp)
           | Val n \<Rightarrow>
               (let ev = [Print (MsgPlaylistTitle (title info)), Print (MsgPlaylistVideos n),
                          Input PromptConfirm]
                in case inp of
                     [] \<Rightarrow> (ev, Inl EOFError, [])
                   | Interrupt # rest \<Rightarrow> (ev, Inl KeyboardInterrupt, rest)
                   | Line confirm # rest \<Rightarrow>
                       (if lower confirm \<notin> set [''y'', ''yes'', ''s'', ''si'']
                        then (ev @ [Print MsgCancelled], Inr False, rest)
                        else (ev, Inr True, rest)))))"

definition playlist_template :: string where
  "playlist_template = ''%(playlist)s/%(playlist_index)s - %(title)s.%(ext)s''"

definition download_playlist ::
  "env \<Rightarrow> downloader \<Rightarrow> string \<Rightarrow> string option \<Rightarrow> input list
     \<Rightarrow> event list \<times> (exn + unit) \<times> input list" where
  "download_playlist E self url format_selector inp =
     (let handler = (\<lambda>r. case r of
            (ev, Inl (Exception m), rest) \<Rightarrow> (ev @ [Print (MsgPlaylistError m)], Inr (), rest)
          | (ev, Inl KeyboardInterrupt, rest) \<Rightarrow> (ev, Inl KeyboardInterrupt, rest)
          | (ev, Inr u, rest) \<Rightarrow> (ev, Inr (), rest))
      in handler
        (case chosen_format E url format_selector inp of
           (ev, Inl e, inp') \<Rightarrow> (ev, Inl e, inp')
         | (ev, Inr None, inp') \<Rightarrow> (ev @ [Print MsgCancelled], Inr (), inp')
         | (ev, Inr (Some sel), inp') \<Rightarrow>
             (let opts = AList.update ''outtmpl''
                           (OTemplate (download_path self) playlist_template)
                           (AList.update ''format'' (OStr sel) (base_opts self));
                  ev1 = ev @ [ExtractInfo PlaylistInfo [(''quiet'', OBool True)] url]
              in case extract_info E PlaylistInfo [(''quiet'', OBool True)] url of
                   Inl e \<Rightarrow> (ev1, Inl e, inp')
                 | Inr answer \<Rightarrow>
                     (case confirm_playlist answer inp' of
                        (ev2, Inl e, inp'') \<Rightarrow> (ev1 @ ev2, Inl e, inp'')
                      | (ev2, Inr False, inp'') \<Rightarrow> (ev1 @ ev2, Inr (), inp'')
                      | (ev2, Inr True, inp'') \<Rightarrow>
                          (let ev3 = ev1 @ ev2 @
                                 [Print (MsgStartPlaylist (download_path self) sel),
                                  Download opts [url]]
                           in case download E opts [url] of
                                Inl e \<Rightarrow> (ev3, Inl e, inp'')
                              | Inr u \<Rightarrow> (ev3 @ [Print MsgPlaylistDone], Inr (), inp''))))))"

definition audio_opts :: "downloader \<Rightarrow> opts" where
  "audio_opts self =
     AList.update ''postprocessors''
       (ODicts [[(''key'', ''FFmpegExtractAudio''), (''preferredcodec'', ''mp3''),
                 (''preferredquality'', ''320'')]])
       (AList.update ''format'' (OStr ''bestaudio/best'') (base_opts self))"

definition download_audio_only ::
  "env \<Rightarrow> downloader \<Rightarrow> string \<Rightarrow> event list \<times> (exn + unit)" where
  "download_audio_only E self url =
     (let ev = [Print (MsgAudioStart (download_path self)), Download (audio_opts self) [url]]
      in case download E (audio_opts self) [url] of
           Inl (Exception m) \<Rightarrow> (ev @ [Print (MsgAudioError m)], Inr ())
         | Inl KeyboardInterrupt \<Rightarrow> (ev, Inl KeyboardInterrupt)
         | Inr u \<Rightarrow> (ev @ [Print MsgAudioDone], Inr ()))"

section \<open>The command line\<close>

text \<open>
  The arguments \<^verbatim>\<open>main\<close> declares with \<^verbatim>\<open>parser.add_argument\<close>: the names, \<^verbatim>\<open>nargs\<close>,
  \<^verbatim>\<open>default\<close>, \<^verbatim>\<open>action\<close> and \<^verbatim>\<open>help\<close> as written (\<open>None\<close> where the call does not give
  one). The bytes \<open>0xC3 0xAD\<close> are i-acute in UTF-8.
\<close>

record argument =
  names :: "string list"
  nargs :: "string option"
  default_value :: "string option"
  action :: "string option"
  help_text :: string

definition parser_arguments :: "argument list" where
  "parser_arguments =
     [\<lparr>names = [''url''], nargs = Some ''?'', default_value = None, action = None,
       help_text = ''URL del video de YouTube''\<rparr>,
      \<lparr>names = [''-p'', ''--path''], nargs = None, default_value = Some ''./downloads'',
       action = None, help_text = ''Carpeta de descarga''\<rparr>,
      \<lparr>names = [''-a'', ''--audio''], nargs = None, default_value = None,
       action = Some ''store_true'', help_text = ''Descargar solo audio (MP3)''\<rparr>,
      \<lparr>names = [''-q'', ''--quality''], nargs = None, default_value = None, action = None,
       help_text = ''Formato espec'' @ [CHR 0xC3, CHR 0xAD] @ ''fico''\<rparr>,
      \<lparr>names = [''--playlist''], nargs = None, default_value = None,
       action = Some ''store_true'', help_text = ''Descargar playlist completa''\<rparr>]"

text \<open>The namespace \<^verbatim>\<open>parser.parse_args()\<close> returns.\<close>

record args =
  args_url :: "string option"
  args_path :: string
  args_audio :: bool
  args_quality :: "string option"
  args_playlist :: bool

text \<open>How the process ends: \<^verbatim>\<open>sys.exit(n)\<close> or the end of \<^verbatim>\<open>main\<close> (status 0), or an
  exception nothing catches.\<close>

datatype ending = Exit nat | Uncaught exn

text \<open>\<^verbatim>\<open>main\<close> from the check of the URL on: \<open>u\<close> is \<^verbatim>\<open>args.url\<close>, not empty.\<close>

definition run :: "env \<Rightarrow> args \<Rightarrow> string \<Rightarrow> input list \<Rightarrow> event list \<times> ending" where
  "run E a u inp =
     (if \<not> contains ''youtube.com'' u \<and> \<not> contains ''youtu.be'' u
      then ([Print MsgInvalidURL], Exit 1)
      else
        (case YouTubeDownloader E (args_path a) of
           (ev, Inl e) \<Rightarrow> (ev, Uncaught e)
         | (ev, Inr downloader) \<Rightarrow>
             (case (if args_audio a then
                      (case download_audio_only E downloader u of (ev', r) \<Rightarrow> (ev', r, inp))
                    else if args_playlist a \<or> contains ''playlist'' u then
                      download_playlist E downloader u (args_quality a) inp
                    else download_video E downloader u (args_quality a) inp) of
                (ev', Inl KeyboardInterrupt, rest) \<Rightarrow>
                  (ev @ ev' @ [Print MsgInterrupted], Exit 0)
              | (ev', Inl (Exception m), rest) \<Rightarrow>
                  (ev @ ev' @ [Print (MsgUnexpected m)], Exit 0)
              | (ev', Inr done, rest) \<Rightarrow> (ev @ ev', Exit 0))))"

text \<open>
  \<^verbatim>\<open>main\<close> after \<^verbatim>\<open>parse_args\<close>. The prompt for the URL is outside every \<^verbatim>\<open>try\<close>: the end
  of the input or Ctrl-C there ends the process with the exception.
\<close>

definition main :: "env \<Rightarrow> args \<Rightarrow> input list \<Rightarrow> event list \<times> ending" where
  "main E a inp =
     (let asked =
            (if args_url a = None \<or> args_url a = Some [] then
               (case inp of
                  [] \<Rightarrow> ([Input PromptURL], Inl EOFError, [])
                | Interrupt # rest \<Rightarrow> ([Input PromptURL], Inl KeyboardInterrupt, rest)
                | Line s # rest \<Rightarrow> ([Input PromptURL], Inr (strip s), rest))
             else ([], Inr (case args_url a of Some given \<Rightarrow> given | None \<Rightarrow> []), inp))
      in case asked of
           (ev, Inl e, rest) \<Rightarrow> (Print MsgBanner # ev, Uncaught e)
         | (ev, Inr u, rest) \<Rightarrow>
             (if u = [] then (Print MsgBanner # ev @ [Print MsgURLRequired], Exit 1)
              else (case run E a u rest of
                      (ev', r) \<Rightarrow> (Print MsgBanner # ev @ ev', r))))"

section \<open>Predicates of the specification\<close>

text \<open>
  An exception is raised while probing a candidate: by the library, or by the body of the
  inner \<^verbatim>\<open>try\<close> on the library's answer.
\<close>

fun probe_raises :: "env \<Rightarrow> string \<Rightarrow> opts \<Rightarrow> string \<times> string \<Rightarrow> bool" where
  "probe_raises E url topts (format_selector, descr) =
     (case extract_info E Probe (AList.update ''format'' (OStr format_selector) topts) url of
        Inl e \<Rightarrow> True
      | Inr None \<Rightarrow> True
      | Inr (Some test_info) \<Rightarrow> isl (probe_entry format_selector descr test_info))"

text \<open>
  The specification's "URL of the video site", read as usual: after an optional
  \<^verbatim>\<open>http://\<close> or \<^verbatim>\<open>https://\<close>, the host (compared without regard to case) is
  \<^verbatim>\<open>youtube.com\<close>, one of its subdomains, or \<^verbatim>\<open>youtu.be\<close>. This is not what \<^verbatim>\<open>main\<close> tests.
\<close>

definition url_host :: "string \<Rightarrow> string" where
  "url_host u =
     (let l = lower u;
          rest = (if take 8 l = ''https://'' then drop 8 l
                  else if take 7 l = ''http://'' then drop 7 l else l)
      in takeWhile (\<lambda>c. c \<notin> set ''/?#:'') rest)"

definition spec_youtube_url :: "string \<Rightarrow> bool" where
  "spec_youtube_url u =
     (let h = url_host u
      in h = ''youtube.com'' \<or> h = ''youtu.be''
         \<or> (12 \<le> length h \<and> drop (length h - 12) h = ''.youtube.com''))"

section \<open>A sample world\<close>

text \<open>
  \<^verbatim>\<open>int()\<close> on a line of ASCII text, as CPython 3.11 reads it: blanks around an optional
  sign and decimal digits, single underscores allowed between digits, at most 4300 digits.
  Digits outside ASCII are not covered.
\<close>

definition decimal_digit :: "char \<Rightarrow> nat option" where
  "decimal_digit c =
     map_of [(CHR ''0'', 0), (CHR ''1'', 1), (CHR ''2'', 2), (CHR ''3'', 3), (CHR ''4'', 4),
             (CHR ''5'', 5), (CHR ''6'', 6), (CHR ''7'', 7), (CHR ''8'', 8), (CHR ''9'', 9)] c"

fun decimal_value :: "string \<Rightarrow> nat \<Rightarrow> nat option" where
  "decimal_value [] acc = Some acc"
| "decimal_value (c # cs) acc =
     (case decimal_digit c of None \<Rightarrow> None | Some d \<Rightarrow> decimal_value cs (10 * acc + d))"

definition decimal_int :: "string \<Rightarrow> int option" where
  "decimal_int s =
     (let t = strip s;
          neg = (t \<noteq> [] \<and> hd t = CHR ''-'');
          body = (if t \<noteq> [] \<and> (hd t = CHR ''-'' \<or> hd t = CHR ''+'') then tl t else t);
          digits = filter (\<lambda>c. c \<noteq> CHR ''_'') body
      in if body = [] \<or> hd body = CHR ''_'' \<or> last body = CHR ''_''
            \<or> contains ''__'' body \<or> 4300 < length digits
         then None
         else (case decimal_value digits 0 of
                 None \<Rightarrow> None
               | Some n \<Rightarrow> Some (if neg then - int n else int n)))"

text \<open>A video with one combined format, one video-only format and one audio format.\<close>

definition example_formats :: "fmt list" where
  "example_formats =
     [\<lparr>format_id = Some ''22'', height = Val 720, width = Val 1280, fps = Val 30,
       vcodec = Val ''avc1.64001F'', acodec = Val ''mp4a.40.2'', ext = Val ''mp4'',
       filesize = PyNone, abr = Absent\<rparr>,
      \<lparr>format_id = Some ''137'', height = Val 1080, width = Val 1920, fps = Val 30,
       vcodec = Val ''avc1.640028'', acodec = Val ''none'', ext = Val ''mp4'',
       filesize = Val 5000000, abr = Absent\<rparr>,
      \<lparr>format_id = Some ''140'', height = PyNone, width = PyNone, fps = PyNone,
       vcodec = Val ''none'', acodec = Val ''mp4a.40.2'', ext = Val ''m4a'',
       filesize = Val 900000, abr = Val 128\<rparr>]"

definition example_info :: "fmt list field \<Rightarrow> info" where
  "example_info requested =
     \<lparr>format_id = Some ''22'', height = Val 720, width = Val 1280, fps = Val 30,
      vcodec = Val ''avc1.64001F'', acodec = Val ''mp4a.40.2'', ext = Val ''mp4'',
      filesize = PyNone, abr = Absent,
      title = Val ''Demo'', duration = Val 60, uploader = Val ''Someone'',
      view_count = Val 1000, formats = Val example_formats,
      requested_formats = requested, entries = Absent\<rparr>"

text \<open>
  A library where the probe of \<^verbatim>\<open>worst\<close> raises, the probe of \<^verbatim>\<open>best\<close> answers the combined
  format and every other probe a video and an audio stream; downloads succeed.
\<close>

definition example_env :: env where
  "example_env =
     \<lparr>extract_info = (\<lambda>site opts u.
        if site = Probe then
          (if map_of opts ''format'' = Some (OStr ''worst'')
             then Inl (Exception ''unavailable'')
           else if map_of opts ''format'' = Some (OStr ''best'')
             then Inr (Some (example_info Absent))
           else Inr (Some (example_info (Val (tl example_formats)))))
        else Inr (Some (example_info Absent))),
      download = (\<lambda>opts urls. Inr ()),
      mkdir = (\<lambda>p. Inr ()),
      py_int = decimal_int\<rparr>"

text \<open>Detected formats with a repeated height and an unknown height.\<close>

definition example_smart :: "string \<Rightarrow> int \<Rightarrow> smart_format" where
  "example_smart sel h =
     \<lparr>selector = sel, description = sel,
      resolution = (if h = 0 then ''N/A'' else str_int h @ ''p''),
      s_height = h, s_fps = None, codec = None, ftype = ''combined_separate'',
      display = (if h = 0 then ''N/A'' else str_int h @ ''p'')\<rparr>"

definition example_available :: "smart_format list" where
  "example_available =
     [example_smart ''best'' 720,
      example_smart ''bestvideo+bestaudio/best'' 1080,
      example_smart ''worst'' 0,
      example_smart ''bestvideo[height<=2160]+bestaudio/best'' 1080,
      example_smart ''bestvideo[height<=720]+bestaudio/best'' 720]"

text \<open>A library whose every call raises \<^verbatim>\<open>DownloadError\<close>.\<close>

definition failing_env :: env where
  "failing_env =
     \<lparr>extract_info = (\<lambda>site opts u. Inl (Exception ''ERROR: unable to download'')),
      download = (\<lambda>opts urls. Inl (Exception ''ERROR: unable to download'')),
      mkdir = (\<lambda>p. Inr ()),
      py_int = decimal_int\<rparr>"





definition example_args :: "string option \<Rightarrow> args" where
  "example_args given =
     \<lparr>args_url = given, args_path = ''./downloads'', args_audio = False,
      args_quality = Some ''best'', args_playlist = False\<rparr>"

section \<open>Facts about the picker\<close>

lemma py_index_in_range:
  "0 \<le> i \<Longrightarrow> i < int (length xs) \<Longrightarrow> py_index xs i = Inr (xs ! nat i)"
  by (simp add: py_index_def)

lemma loop_starts_with_prompt:
  "\<exists>ev. fst (select_quality_loop to_int opts inp) = Input (PromptChoice (length opts)) # ev"
  by (cases "(to_int, opts, inp)" rule: select_quality_loop.cases)
     (auto simp: Let_def split: option.splits prod.splits sum.splits)

lemma loop_returns_listed:
  "select_quality_loop to_int opts inp = (ev, Inr (Some sel), left) \<Longrightarrow>
   \<exists>l c. Line l \<in> set inp \<and> to_int (strip l) = Some c \<and> 1 \<le> c \<and> c \<le> int (length opts)
         \<and> nat (c - 1) < length opts \<and> sel = opts ! nat (c - 1)"
proof (induction to_int opts inp arbitrary: ev rule: select_quality_loop.induct)
  case (1 to_int all_options)
  then show ?case by simp
next
  case (2 to_int all_options rest)
  then show ?case by simp
next
  case (3 to_int all_options s rest)
  then show ?case
    by (fastforce simp: Let_def py_index_in_range
                  split: option.splits prod.splits sum.splits if_splits)
qed

lemma loop_raises_only_eof:
  "select_quality_loop to_int opts inp = (ev, Inl e, left) \<Longrightarrow> e = EOFError \<and> left = []"
proof (induction to_int opts inp arbitrary: ev rule: select_quality_loop.induct)
  case (3 to_int all_options s rest)
  then show ?case
    by (auto simp: Let_def py_index_in_range
             split: option.splits prod.splits sum.splits if_splits)
qed simp_all

lemma loop_rejects:
  assumes "lower (strip l) \<noteq> ''q''"
    and "\<forall>c. to_int (strip l) = Some c \<longrightarrow> c < 1 \<or> int (length opts) < c"
  shows "\<exists>m ev r. (m = MsgNotNumber \<or> m = MsgInvalidOption (length opts))
           \<and> select_quality_loop to_int opts later = (Input (PromptChoice (length opts)) # ev, r)
           \<and> select_quality_loop to_int opts (Line l # later)
               = (Input (PromptChoice (length opts)) # Print m
                    # Input (PromptChoice (length opts)) # ev, r)"
proof -
  obtain ev where
    ev: "fst (select_quality_loop to_int opts later) = Input (PromptChoice (length opts)) # ev"
    using loop_starts_with_prompt by blast
  obtain r where
    r: "select_quality_loop to_int opts later = (Input (PromptChoice (length opts)) # ev, r)"
    using ev by (cases "select_quality_loop to_int opts later") auto
  show ?thesis
  proof (cases "to_int (strip l)")
    case None
    then show ?thesis using assms r by (auto simp: Let_def)
  next
    case (Some c)
    then have "c < 1 \<or> int (length opts) < c" using assms by blast
    then show ?thesis using assms r Some by (auto simp: Let_def)
  qed
qed

lemma loop_events:
  "e \<in> set (fst (select_quality_loop to_int opts inp)) \<Longrightarrow>
     (\<exists>l. e = Print l) \<or> e = Input (PromptChoice (length opts))"
proof (induction to_int opts inp rule: select_quality_loop.induct)
  case (3 to_int all_options s rest)
  then show ?case
    by (auto simp: Let_def split: option.splits prod.splits sum.splits if_splits)
qed auto

section \<open>Facts about the menu\<close>

lemma rows_result:
  "rows row xs (os, n) = (ev, Inr (os', n')) \<Longrightarrow>
     (\<exists>new. os' = os @ new \<and> length new = length xs) \<and> n' = n + length xs"
proof (induction xs arbitrary: os n ev)
  case Nil
  then show ?case by simp
next
  case (Cons x xs)
  then show ?case
    by (fastforce split: sum.splits prod.splits)
qed

lemma rows_events: "e \<in> set (fst (rows row xs m)) \<Longrightarrow> \<exists>l. e = Print l"
proof (induction xs arbitrary: m)
  case Nil
  then show ?case by simp
next
  case (Cons x xs)
  obtain os n where m: "m = (os, n)" by (cases m)
  show ?case
  proof (cases "row n x")
    case (Inl e)
    then show ?thesis using Cons.prems by (simp add: m)
  next
    case (Inr b)
    obtain line sel where b: "b = (line, sel)" by (cases b)
    show ?thesis
      using Cons.IH [of "(os @ [sel], n + 1)"] Cons.prems Inr
      by (auto simp: m b split: prod.splits)
  qed
qed

lemma manual_section_result:
  "manual_section header row xs (os, n) = (ev, Inr (os', n')) \<Longrightarrow> \<exists>new. os' = os @ new"
  by (auto simp: manual_section_def split: if_splits prod.splits dest: rows_result)

lemma manual_section_events:
  "e \<in> set (fst (manual_section header row xs m)) \<Longrightarrow> \<exists>l. e = Print l"
  using rows_events [of e row "take 5 xs" m]
  by (auto simp: manual_section_def split: prod.splits if_splits)

lemma quick_rows:
  "rows quick_row quick_options (os, n) =
     (map (\<lambda>(k, q). Print (MsgQuickRow (n + k) (snd q))) (enumerate 0 quick_options),
      Inr (os @ map fst quick_options, n + 3))"
  by (simp add: quick_options_def quick_row_def)

lemma and_then_Inr:
  "and_then a f = (ev, Inr m) \<Longrightarrow>
     \<exists>ev1 m1 ev2. a = (ev1, Inr m1) \<and> f m1 = (ev2, Inr m) \<and> ev = ev1 @ ev2"
  by (auto simp: and_then_def split: prod.splits sum.splits)

lemma and_then_prefix: "\<exists>rest. fst (and_then a f) = fst a @ rest"
  by (cases a) (auto simp: and_then_def split: sum.splits prod.splits)

lemma and_then_events:
  assumes "\<And>e. e \<in> set (fst a) \<Longrightarrow> \<exists>l. e = Print l"
    and "\<And>m e. e \<in> set (fst (f m)) \<Longrightarrow> \<exists>l. e = Print l"
    and "e \<in> set (fst (and_then a f))"
  shows "\<exists>l. e = Print l"
proof -
  obtain ev r where ar: "a = (ev, r)" by (cases a)
  show ?thesis
  proof (cases r)
    case (Inl x)
    then show ?thesis using assms(1) [of e] assms(3) by (simp add: and_then_def ar)
  next
    case (Inr m)
    obtain ev' r' where fm: "f m = (ev', r')" by (cases "f m")
    have "e \<in> set ev \<or> e \<in> set ev'"
      using assms(3) by (simp add: and_then_def ar Inr fm)
    then show ?thesis
      using assms(1) [of e] assms(2) [of e m] by (auto simp: ar fm)
  qed
qed

lemma menu_ends_with_quick_options:
  assumes "select_quality_menu i av manual = (ev, Inr all_options)"
  shows "\<exists>detected. all_options = detected @ map fst quick_options"
proof -
  let ?last = "\<lambda>m. case rows quick_row quick_options m of
                      (ev, r) \<Rightarrow> (Print MsgQuickHeader # ev, r)"
  from assms obtain a ev' n where
    built: "and_then a ?last = (ev', Inr (all_options, n))"
    unfolding select_quality_menu_def Let_def
    by (auto split: prod.splits sum.splits)
  then obtain m1 ev2 where "?last m1 = (ev2, Inr (all_options, n))"
    using and_then_Inr [OF built] by blast
  then show ?thesis
    by (cases m1) (auto simp: quick_rows)
qed

lemma menu_events:
  assumes "e \<in> set (fst (select_quality_menu i av manual))"
  shows "\<exists>l. e = Print l"
proof -
  let ?intro = "[Print (MsgTitle (title i)), Print (MsgDuration (duration i)),
      Print (MsgChannel (uploader i)), Print (MsgViews (view_count i)),
      Print MsgDetectedHeader, Print MsgSmartHeader]"
  let ?last = "\<lambda>m. case rows quick_row quick_options m of
                      (ev, r) \<Rightarrow> (Print MsgQuickHeader # ev, r)"
  let ?built = "and_then (and_then (and_then (and_then (and_then
              (?intro, Inr ([], 1))
              (rows smart_row (smart_section av)))
              (manual_section MsgCombinedHeader combined_row (combined manual)))
              (manual_section MsgVideoHeader video_row (video manual)))
              (manual_section MsgAudioHeader audio_row (audio manual)))
              ?last"
  have last: "\<exists>l. e = Print l" if "e \<in> set (fst (?last m))" for m e
    using rows_events [of e quick_row quick_options m] that
    by (auto split: prod.splits)
  have built: "\<exists>l. e = Print l" if "e \<in> set (fst ?built)" for e
    using that
    by (elim and_then_events [rotated 2] last rows_events manual_section_events) auto
  have "e \<in> set (fst ?built) \<or> e = Print MsgNote"
    using assms unfolding select_quality_menu_def Let_def
    by (cases ?built) (auto split: sum.splits prod.splits)
  then show ?thesis using built by blast
qed

section \<open>Facts about quality detection\<close>

lemma probe_loop_trace:
  "fst (probe_loop E u cands topts acc) =
     map (\<lambda>c. ExtractInfo Probe (AList.update ''format'' (OStr (fst c)) topts) u) cands"
proof (induction E u cands topts acc rule: probe_loop.induct)
  case (1 E u topts available_formats)
  then show ?case by simp
next
  case (2 E u format_selector descr rest topts available_formats)
  then show ?case
    by (auto simp: Let_def split: prod.splits)
qed

lemma probe_loop_result:
  "snd (probe_loop E u cands topts acc) =
     acc @ concat (map (\<lambda>(sel, d).
       probe_one E u (AList.update ''format'' (OStr sel) topts) sel d) cands)"
proof (induction E u cands topts acc rule: probe_loop.induct)
  case (1 E u topts available_formats)
  then show ?case by simp
next
  case (2 E u format_selector descr rest topts available_formats)
  then show ?case
    by (auto simp: Let_def split: prod.splits)
qed

lemma probe_raises_found:
  "probe_raises E u topts c \<Longrightarrow>
     (case c of (sel, d) \<Rightarrow> probe_one E u (AList.update ''format'' (OStr sel) topts) sel d) = []"
  by (cases c) (auto simp: probe_one_def split: sum.splits option.splits)

lemma concat_skip:
  "(\<And>x. x \<in> set xs \<Longrightarrow> \<not> P x \<Longrightarrow> f x = []) \<Longrightarrow>
     concat (map f (filter P xs)) = concat (map f xs)"
  by (induction xs) auto

lemma probe_loop_skips:
  "snd (probe_loop E u cands topts acc) =
     snd (probe_loop E u (filter (\<lambda>c. \<not> probe_raises E u topts c) cands) topts acc)"
  using concat_skip [of cands "\<lambda>c. \<not> probe_raises E u topts c"
          "\<lambda>(sel, d). probe_one E u (AList.update ''format'' (OStr sel) topts) sel d"]
        probe_raises_found [of E u topts]
  by (simp add: probe_loop_result)

lemma test_format_availability_ok:
  "extract_info E SmartInfo basic_opts u = Inr (Some i) \<Longrightarrow>
     test_format_availability E u =
       (Print MsgDetecting # ExtractInfo SmartInfo basic_opts u
          # map (\<lambda>c. ExtractInfo Probe (AList.update ''format'' (OStr (fst c)) test_opts) u)
              test_formats,
        Inr (Some (i, snd (probe_loop E u test_formats test_opts []))))"
  using probe_loop_trace [of E u test_formats test_opts "[]"]
  by (cases "probe_loop E u test_formats test_opts []")
     (simp add: test_format_availability_def)

lemma test_format_availability_events:
  assumes "e \<in> set (fst (test_format_availability E u))"
  shows "(\<exists>l. e = Print l) \<or> (\<exists>s opt. e = ExtractInfo s opt u)"
proof -
  have "e \<in> set (fst (probe_loop E u test_formats test_opts [])) \<Longrightarrow>
          \<exists>s opt. e = ExtractInfo s opt u"
    by (auto simp: probe_loop_trace)
  then show ?thesis
    using assms
    by (auto simp: test_format_availability_def Let_def
             split: sum.splits exn.splits option.splits prod.splits)
qed

lemma get_manual_formats_trace:
  "fst (get_manual_formats E u) = [ExtractInfo ManualInfo basic_opts u]"
  by (simp add: get_manual_formats_def)

lemma select_quality_events:
  assumes e: "e \<in> set (fst (select_quality E u inp))"
  shows "(\<exists>l. e = Print l) \<or> (\<exists>s opt. e = ExtractInfo s opt u)
         \<or> (\<exists>n. e = Input (PromptChoice n) \<and> 3 \<le> n)"
proof -
  obtain ev1 r1 where t: "test_format_availability E u = (ev1, r1)"
    by (cases "test_format_availability E u")
  have ev1: "x \<in> set ev1 \<Longrightarrow> (\<exists>l. x = Print l) \<or> (\<exists>s opt. x = ExtractInfo s opt u)" for x
    using test_format_availability_events [of x E u] by (simp add: t)
  obtain manual where g: "get_manual_formats E u = ([ExtractInfo ManualInfo basic_opts u], manual)"
    using get_manual_formats_trace [of E u] by (cases "get_manual_formats E u") auto
  show ?thesis
  proof (cases r1)
    case (Inl x)
    then have "e \<in> set ev1" using e by (simp add: select_quality_def t)
    then show ?thesis using ev1 [of e] by blast
  next
    case (Inr smart)
    show ?thesis
    proof (cases smart)
      case None
      then have "e \<in> set ev1 \<or> e = ExtractInfo ManualInfo basic_opts u \<or> e = Print MsgNoInfo"
        using e by (auto simp: select_quality_def t g Inr)
      then show ?thesis using ev1 [of e] by blast
    next
      case (Some found)
      obtain i av where found: "found = (i, av)" by (cases found)
      obtain ev3 r3 where m: "select_quality_menu i av manual = (ev3, r3)"
        by (cases "select_quality_menu i av manual")
      have ev3: "x \<in> set ev3 \<Longrightarrow> \<exists>l. x = Print l" for x
        using menu_events [of x i av manual] by (simp add: m)
      show ?thesis
      proof (cases r3)
        case (Inl x)
        then have "e \<in> set ev1 \<or> e = ExtractInfo ManualInfo basic_opts u \<or> e \<in> set ev3"
          using e by (auto simp: select_quality_def t g Inr Some found m)
        then show ?thesis using ev1 [of e] ev3 [of e] by blast
      next
        case opts: (Inr all_options)
        obtain ev4 r4 where l: "select_quality_loop (py_int E) all_options inp = (ev4, r4)"
          by (cases "select_quality_loop (py_int E) all_options inp")
        have ev4: "x \<in> set ev4 \<Longrightarrow> (\<exists>l. x = Print l) \<or> x = Input (PromptChoice (length all_options))"
          for x
          using loop_events [of x "py_int E" all_options inp] by (simp add: l)
        have "\<exists>detected. all_options = detected @ map fst quick_options"
          using menu_ends_with_quick_options m opts by blast
        then have three: "3 \<le> length all_options"
          by (auto simp: quick_options_def)
        have "e \<in> set ev1 \<or> e = ExtractInfo ManualInfo basic_opts u \<or> e \<in> set ev3 \<or> e \<in> set ev4"
          using e by (auto simp: select_quality_def t g Inr Some found m opts l)
        then show ?thesis
          using ev1 [of e] ev3 [of e] ev4 [of e] three by blast
      qed
    qed
  qed
qed

section \<open>Facts about the first section of the menu\<close>

lemma unique_by_height_acc:
  "unique_by_height av seen acc = acc @ unique_by_height av seen []"
proof (induction av arbitrary: seen acc)
  case Nil
  then show ?case by simp
next
  case (Cons f rest)
  show ?case
    using Cons [of "insert (s_height f) seen" "acc @ [f]"]
          Cons [of "insert (s_height f) seen" "[f]"] Cons [of seen acc]
    by simp
qed

lemma unique_by_height_heights:
  "s_height ` set (unique_by_height av seen []) =
     {h \<in> s_height ` set av. 0 < h \<and> h \<notin> seen}"
proof (induction av arbitrary: seen)
  case Nil
  then show ?case by simp
next
  case (Cons f rest)
  show ?case
    using Cons [of "insert (s_height f) seen"] Cons [of seen]
          unique_by_height_acc [of rest "insert (s_height f) seen" "[f]"]
    by auto
qed

lemma unique_by_height_distinct:
  "distinct (map s_height (unique_by_height av seen []))"
proof (induction av arbitrary: seen)
  case Nil
  then show ?case by simp
next
  case (Cons f rest)
  have "s_height f \<notin> s_height ` set (unique_by_height rest (insert (s_height f) seen) [])"
    by (simp add: unique_by_height_heights)
  then show ?case
    using Cons [of "insert (s_height f) seen"] Cons [of seen]
          unique_by_height_acc [of rest "insert (s_height f) seen" "[f]"]
    by auto
qed

lemma unique_by_height_first:
  "f \<in> set (unique_by_height av seen []) \<Longrightarrow>
     find (\<lambda>g. s_height g = s_height f) av = Some f"
proof (induction av arbitrary: seen)
  case Nil
  then show ?case by simp
next
  case (Cons x rest)
  show ?case
  proof (cases "0 < s_height x \<and> s_height x \<notin> seen")
    case True
    then have "f = x \<or> f \<in> set (unique_by_height rest (insert (s_height x) seen) [])"
      using Cons.prems unique_by_height_acc [of rest "insert (s_height x) seen" "[x]"]
      by auto
    then show ?thesis
    proof
      assume "f = x"
      then show ?thesis by simp
    next
      assume in_rest: "f \<in> set (unique_by_height rest (insert (s_height x) seen) [])"
      then have "s_height f \<in> s_height ` set (unique_by_height rest (insert (s_height x) seen) [])"
        by blast
      then have "s_height f \<noteq> s_height x"
        by (auto simp: unique_by_height_heights)
      then show ?thesis using Cons.IH [OF in_rest] by simp
    qed
  next
    case False
    then have in_rest: "f \<in> set (unique_by_height rest seen [])"
      using Cons.prems by auto
    then have "s_height f \<in> s_height ` set (unique_by_height rest seen [])"
      by blast
    then have "0 < s_height f \<and> s_height f \<notin> seen"
      by (auto simp: unique_by_height_heights)
    then have "s_height f \<noteq> s_height x" using False by auto
    then show ?thesis using Cons.IH [OF in_rest] by simp
  qed
qed

lemma distinct_map_insort_key:
  "distinct (map f (insort_key f x xs)) = (f x \<notin> f ` set xs \<and> distinct (map f xs))"
  by (induction xs) (auto simp: set_insort_key)

lemma distinct_map_sort_key:
  "distinct (map f (sort_key f xs)) = distinct (map f xs)"
  by (induction xs) (auto simp: distinct_map_insort_key)

lemma smart_section_eq: "smart_section av = unique_formats av"
proof -
  have "\<forall>f \<in> set (unique_formats av). 0 < s_height f"
    using unique_by_height_heights [of av "{}"] by (auto simp: unique_formats_def)
  then show ?thesis by (simp add: smart_section_def)
qed

lemma smart_section_set:
  "set (smart_section av) = set (unique_by_height av {} [])"
  by (simp add: smart_section_eq unique_formats_def)

lemma smart_section_distinct: "distinct (map s_height (smart_section av))"
proof -
  have "distinct (map (\<lambda>x. - s_height x) (unique_by_height av {} []))"
    using unique_by_height_distinct [of av "{}"]
    by (simp add: distinct_map inj_on_def)
  then have "distinct (map (\<lambda>x. - s_height x) (smart_section av))"
    by (simp add: smart_section_eq unique_formats_def distinct_map_sort_key)
  then show ?thesis
    by (simp add: distinct_map inj_on_def)
qed

lemma smart_section_decreasing:
  "sorted_wrt (\<lambda>a b. b < a) (map s_height (smart_section av))"
proof -
  let ?k = "\<lambda>x. - s_height x"
  have "sorted (map ?k (smart_section av))"
    by (simp add: smart_section_eq unique_formats_def)
  moreover have "distinct (map ?k (smart_section av))"
    using smart_section_distinct [of av] by (simp add: distinct_map inj_on_def)
  ultimately have "sorted_wrt (<) (map ?k (smart_section av))"
    by (simp add: strict_sorted_iff)
  then show ?thesis
    by (simp add: sorted_wrt_map)
qed

lemma smart_rows:
  "rows smart_row xs (os, n) =
     (map (\<lambda>(k, f). Print (MsgSmartRow k f)) (enumerate n xs),
      Inr (os @ map selector xs, n + length xs))"
  by (induction xs arbitrary: os n) (simp_all add: smart_row_def)

lemma menu_smart_rows:
  "\<exists>rest. fst (select_quality_menu i av manual) =
     [Print (MsgTitle (title i)), Print (MsgDuration (duration i)),
      Print (MsgChannel (uploader i)), Print (MsgViews (view_count i)),
      Print MsgDetectedHeader, Print MsgSmartHeader]
     @ map (\<lambda>(k, f). Print (MsgSmartRow k f)) (enumerate 1 (smart_section av)) @ rest"
proof -
  let ?intro = "[Print (MsgTitle (title i)), Print (MsgDuration (duration i)),
      Print (MsgChannel (uploader i)), Print (MsgViews (view_count i)),
      Print MsgDetectedHeader, Print MsgSmartHeader]"
  let ?a1 = "and_then (?intro, Inr ([], 1)) (rows smart_row (smart_section av))"
  let ?a2 = "and_then ?a1 (manual_section MsgCombinedHeader combined_row (combined manual))"
  let ?a3 = "and_then ?a2 (manual_section MsgVideoHeader video_row (video manual))"
  let ?a4 = "and_then ?a3 (manual_section MsgAudioHeader audio_row (audio manual))"
  let ?a5 = "and_then ?a4 (\<lambda>m. case rows quick_row quick_options m of
                      (ev, r) \<Rightarrow> (Print MsgQuickHeader # ev, r))"
  let ?rows = "map (\<lambda>(k, f). Print (MsgSmartRow k f)) (enumerate 1 (smart_section av))"
  have a1: "fst ?a1 = ?intro @ ?rows"
    by (simp add: and_then_def smart_rows)
  obtain r2 where "fst ?a2 = fst ?a1 @ r2" using and_then_prefix by blast
  moreover obtain r3 where "fst ?a3 = fst ?a2 @ r3" using and_then_prefix by blast
  moreover obtain r4 where "fst ?a4 = fst ?a3 @ r4" using and_then_prefix by blast
  moreover obtain r5 where "fst ?a5 = fst ?a4 @ r5" using and_then_prefix by blast
  ultimately have a5: "fst ?a5 = ?intro @ ?rows @ r2 @ r3 @ r4 @ r5"
    using a1 by simp
  have "fst (select_quality_menu i av manual) = fst ?a5
        \<or> fst (select_quality_menu i av manual) = fst ?a5 @ [Print MsgNote]"
    unfolding select_quality_menu_def Let_def
    by (cases ?a5) (auto split: sum.splits prod.splits)
  then show ?thesis using a5 by auto
qed

section \<open>Facts about the downloads\<close>

lemma chosen_format_events:
  "e \<in> set (fst (chosen_format E u fs inp)) \<Longrightarrow>
     (\<exists>l. e = Print l) \<or> (\<exists>s opt. e = ExtractInfo s opt u)
     \<or> (\<exists>n. e = Input (PromptChoice n) \<and> 3 \<le> n)"
  using select_quality_events [of e E u inp]
  by (cases fs) (auto simp: chosen_format_def)

lemma download_video_chosen:
  assumes "chosen_format E u fs inp = (ev, Inr (Some sel), left)"
  shows "\<exists>after r. download_video E self u fs inp =
           (ev @ [Print (MsgStart (download_path self) sel),
                  Download (AList.update ''format'' (OStr sel) (base_opts self)) [u]] @ after,
            r, left)
           \<and> (after = [] \<or> (\<exists>l. after = [Print l]))"
  using assms
  by (auto simp: download_video_def Let_def split: sum.splits exn.splits)

lemma download_video_not_chosen:
  assumes "chosen_format E u fs inp = (ev, r, left)" and "\<forall>sel. r \<noteq> Inr (Some sel)"
  shows "\<exists>after. fst (download_video E self u fs inp) = ev @ after
           \<and> (after = [] \<or> (\<exists>l. after = [Print l]))"
  using assms
  by (auto simp: download_video_def Let_def split: sum.splits exn.splits option.splits)








section \<open>Facts about \<^verbatim>\<open>main\<close>\<close>

lemma run_rejects:
  "\<not> contains ''youtube.com'' u \<Longrightarrow> \<not> contains ''youtu.be'' u \<Longrightarrow>
     run E a u inp = ([Print MsgInvalidURL], Exit 1)"
  by (simp add: run_def)

lemma run_accepts:
  "contains ''youtube.com'' u \<or> contains ''youtu.be'' u \<Longrightarrow>
     \<exists>ev r. run E a u inp = (Mkdir (args_path a) # ev, r)"
  by (auto simp: run_def YouTubeDownloader_def
           split: sum.splits prod.splits exn.splits)

lemma main_given:
  "args_url a = Some u \<Longrightarrow> u \<noteq> [] \<Longrightarrow>
     main E a inp = (Print MsgBanner # fst (run E a u inp), snd (run E a u inp))"
  by (simp add: main_def Let_def split: prod.splits)

lemma main_typed:
  "args_url a = None \<or> args_url a = Some [] \<Longrightarrow> strip typed \<noteq> [] \<Longrightarrow>
     main E a (Line typed # inp) =
       (Print MsgBanner # Input PromptURL # fst (run E a (strip typed) inp),
        snd (run E a (strip typed) inp))"
  by (auto simp: main_def Let_def split: prod.splits)

lemma main_prompts:
  "args_url a = None \<or> args_url a = Some [] \<Longrightarrow>
     \<exists>ev r. main E a inp = (Print MsgBanner # Input PromptURL # ev, r)"
  by (auto simp: main_def Let_def split: prod.splits list.splits input.splits)

section \<open>Where a Ctrl-C can come from\<close>
















section \<open>Sample runs\<close>

lemma quit_on_capital_q:
  "select_quality_loop decimal_int [''best'', ''bestvideo+bestaudio/best'', ''worst'']
     [Line ''Q'', Line ''1''] = ([Input (PromptChoice 3)], Inr None, [Line ''1''])"
  by code_simp

lemma seven_is_a_number: "decimal_int (strip ''7'') = Some 7"
  by code_simp

lemma seven_is_not_q: "lower (strip ''7'') \<noteq> ''q''"
  by code_simp

lemma seven_then_two:
  "select_quality_loop decimal_int [''best'', ''bestvideo+bestaudio/best'', ''worst'']
     [Line ''7'', Line '' 2 ''] =
     ([Input (PromptChoice 3), Print (MsgInvalidOption 3), Input (PromptChoice 3),
       Print (MsgSelected ''bestvideo+bestaudio/best'')],
      Inr (Some ''bestvideo+bestaudio/best''), [])"
  by code_simp

text \<open>A line of a no-break space and \<^verbatim>\<open>q\<close> is stripped to \<^verbatim>\<open>q\<close> and leaves the loop.\<close>

lemma quit_after_no_break_space:
  "select_quality_loop decimal_int [''best'', ''bestvideo+bestaudio/best'', ''worst'']
     [Line [CHR 0xC2, CHR 0xA0, CHR ''q''], Line ''1'']
     = ([Input (PromptChoice 3)], Inr None, [Line ''1''])"
  by code_simp

text \<open>
  C1, as amended. In the loop of \<^verbatim>\<open>select_quality\<close> over a menu of \<open>n\<close> options: a selector is
  returned only for a line that \<^verbatim>\<open>int()\<close> reads as some \<open>c\<close> with \<open>1 \<le> c \<le> n\<close>, and it is
  the entry \<open>c - 1\<close> of the option list, an index inside the list; the loop never raises
  \<^verbatim>\<open>IndexError\<close> (the only exception is the end of the input); and a line that is not \<^verbatim>\<open>q\<close>
  after \<^verbatim>\<open>strip()\<close> and \<^verbatim>\<open>lower()\<close>, and that is no integer or an integer outside
  \<open>1..n\<close>, gets an error message and the prompt again.
\<close>

theorem select_quality_loop_bounds:
  "(\<forall>ev sel left. select_quality_loop to_int all_options inp = (ev, Inr (Some sel), left) \<longrightarrow>
      (\<exists>l c. Line l \<in> set inp \<and> to_int (strip l) = Some c \<and> 1 \<le> c
            \<and> c \<le> int (length all_options)
            \<and> nat (c - 1) < length all_options \<and> sel = all_options ! nat (c - 1)))
   \<and> (\<forall>ev e left. select_quality_loop to_int all_options inp = (ev, Inl e, left) \<longrightarrow>
          e = EOFError)
   \<and> (\<forall>l later. lower (strip l) \<noteq> ''q''
          \<and> (\<forall>c. to_int (strip l) = Some c \<longrightarrow> c < 1 \<or> int (length all_options) < c) \<longrightarrow>
          (\<exists>m ev r. (m = MsgNotNumber \<or> m = MsgInvalidOption (length all_options))
             \<and> select_quality_loop to_int all_options later
                 = (Input (PromptChoice (length all_options)) # ev, r)
             \<and> select_quality_loop to_int all_options (Line l # later)
                 = (Input (PromptChoice (length all_options)) # Print m
                      # Input (PromptChoice (length all_options)) # ev, r)))"
proof (intro conjI allI impI)
  fix ev sel left
  assume "select_quality_loop to_int all_options inp = (ev, Inr (Some sel), left)"
  then show "\<exists>l c. Line l \<in> set inp \<and> to_int (strip l) = Some c \<and> 1 \<le> c
            \<and> c \<le> int (length all_options)
            \<and> nat (c - 1) < length all_options \<and> sel = all_options ! nat (c - 1)"
    by (rule loop_returns_listed)
next
  fix ev e left
  assume "select_quality_loop to_int all_options inp = (ev, Inl e, left)"
  then show "e = EOFError"
    by (simp add: loop_raises_only_eof)
next
  fix l later
  assume "lower (strip l) \<noteq> ''q''
          \<and> (\<forall>c. to_int (strip l) = Some c \<longrightarrow> c < 1 \<or> int (length all_options) < c)"
  then show "\<exists>m ev r. (m = MsgNotNumber \<or> m = MsgInvalidOption (length all_options))
             \<and> select_quality_loop to_int all_options later
                 = (Input (PromptChoice (length all_options)) # ev, r)
             \<and> select_quality_loop to_int all_options (Line l # later)
                 = (Input (PromptChoice (length all_options)) # Print m
                      # Input (PromptChoice (length all_options)) # ev, r)"
    using loop_rejects [of l to_int all_options later] by simp
qed

theorem select_quality_loop_bounds_witness:
  "select_quality_loop decimal_int [''best'', ''bestvideo+bestaudio/best'', ''worst'']
     [Line ''7'', Line '' 2 ''] =
     ([Input (PromptChoice 3), Print (MsgInvalidOption 3), Input (PromptChoice 3),
       Print (MsgSelected ''bestvideo+bestaudio/best'')],
      Inr (Some ''bestvideo+bestaudio/best''), [])
   \<and> (\<exists>l c. Line l \<in> set [Line ''7'', Line '' 2 ''] \<and> decimal_int (strip l) = Some c
         \<and> 1 \<le> c \<and> c \<le> 3
         \<and> ''bestvideo+bestaudio/best''
             = [''best'', ''bestvideo+bestaudio/best'', ''worst''] ! nat (c - 1))
   \<and> lower (strip ''7'') \<noteq> ''q'' \<and> decimal_int (strip ''7'') = Some 7
   \<and> (\<exists>m ev r. (m = MsgNotNumber \<or> m = MsgInvalidOption 3)
         \<and> select_quality_loop decimal_int [''best'', ''bestvideo+bestaudio/best'', ''worst'']
              [Line ''7'', Line '' 2 '']
             = (Input (PromptChoice 3) # Print m # Input (PromptChoice 3) # ev, r))"
proof -
  let ?opts = "[''best'', ''bestvideo+bestaudio/best'', ''worst'']"
  have len: "length ?opts = 3" by simp
  note bounds =
    select_quality_loop_bounds [of decimal_int ?opts "[Line ''7'', Line '' 2 '']", unfolded len of_nat_numeral]
  have picked: "\<exists>l c. Line l \<in> set [Line ''7'', Line '' 2 ''] \<and> decimal_int (strip l) = Some c
         \<and> 1 \<le> c \<and> c \<le> 3 \<and> ''bestvideo+bestaudio/best'' = ?opts ! nat (c - 1)"
    using bounds seven_then_two by blast
  have out: "lower (strip ''7'') \<noteq> ''q''
      \<and> (\<forall>c. decimal_int (strip ''7'') = Some c \<longrightarrow> c < 1 \<or> 3 < c)"
    using seven_is_a_number seven_is_not_q by simp
  have rejected: "\<exists>m ev r. (m = MsgNotNumber \<or> m = MsgInvalidOption 3)
         \<and> select_quality_loop decimal_int ?opts [Line ''7'', Line '' 2 '']
             = (Input (PromptChoice 3) # Print m # Input (PromptChoice 3) # ev, r)"
    using bounds out by blast
  show ?thesis
    using seven_then_two picked seven_is_not_q seven_is_a_number rejected by blast
qed

text \<open>
  C1 as stated fails: the line \<^verbatim>\<open>Q\<close> is no integer and is not \<^verbatim>\<open>q\<close>, and the loop neither
  prints an error nor asks again; it returns \<^verbatim>\<open>None\<close>, leaving the next line unread.
\<close>

theorem capital_q_counterexample:
  "decimal_int (strip ''Q'') = None \<and> strip ''Q'' \<noteq> ''q''
   \<and> select_quality_loop decimal_int [''best'', ''bestvideo+bestaudio/best'', ''worst'']
        [Line ''Q'', Line ''1''] = ([Input (PromptChoice 3)], Inr None, [Line ''1''])"
  by code_simp

text \<open>
  C3. In \<^verbatim>\<open>test_format_availability\<close> a candidate whose probe raises (in the library or in
  the body of the inner \<^verbatim>\<open>try\<close>) is skipped and nothing else changes: the formats gathered
  are those gathered when the raising candidates are left out of the list; every candidate
  of the list is probed, in order, whatever the earlier probes did; and when the metadata
  query answered, the function returns its answer with the formats of the probes that
  succeeded.
\<close>

theorem probing_skips_and_continues:
  "snd (probe_loop E u cands topts acc) =
     snd (probe_loop E u (filter (\<lambda>c. \<not> probe_raises E u topts c) cands) topts acc)
   \<and> fst (probe_loop E u cands topts acc) =
       map (\<lambda>c. ExtractInfo Probe (AList.update ''format'' (OStr (fst c)) topts) u) cands
   \<and> (extract_info E SmartInfo basic_opts u = Inr (Some i) \<longrightarrow>
        snd (test_format_availability E u) =
          Inr (Some (i, snd (probe_loop E u
                 (filter (\<lambda>c. \<not> probe_raises E u test_opts c) test_formats) test_opts []))))"
  using probe_loop_skips [of E u cands topts acc] probe_loop_trace [of E u cands topts acc]
        probe_loop_skips [of E u test_formats test_opts "[]"]
        test_format_availability_ok [of E u i]
  by simp

lemma example_metadata:
  "extract_info example_env SmartInfo basic_opts ''https://youtu.be/x''
     = Inr (Some (example_info Absent))"
  by (simp add: example_env_def)

lemma example_worst_raises:
  "probe_raises example_env ''https://youtu.be/x'' test_opts (''worst'', ''Peor calidad'')"
  by (simp add: example_env_def test_opts_def)

lemma example_detected:
  "map selector (snd (probe_loop example_env ''https://youtu.be/x'' test_formats test_opts []))
     = [''best'', ''bestvideo+bestaudio/best'',
        ''bestvideo[height<=2160]+bestaudio/best'', ''bestvideo[height<=1440]+bestaudio/best'',
        ''bestvideo[height<=1080]+bestaudio/best'', ''bestvideo[height<=720]+bestaudio/best'',
        ''bestvideo[height<=480]+bestaudio/best'', ''bestvideo[height<=360]+bestaudio/best'']"
  by code_simp

theorem probing_skips_and_continues_witness:
  "extract_info example_env SmartInfo basic_opts ''https://youtu.be/x''
     = Inr (Some (example_info Absent))
   \<and> probe_raises example_env ''https://youtu.be/x'' test_opts (''worst'', ''Peor calidad'')
   \<and> snd (test_format_availability example_env ''https://youtu.be/x'') =
       Inr (Some (example_info Absent,
         snd (probe_loop example_env ''https://youtu.be/x''
                (filter (\<lambda>c. \<not> probe_raises example_env ''https://youtu.be/x'' test_opts c)
                   test_formats) test_opts [])))
   \<and> map selector (snd (probe_loop example_env ''https://youtu.be/x''
                (filter (\<lambda>c. \<not> probe_raises example_env ''https://youtu.be/x'' test_opts c)
                   test_formats) test_opts []))
     = [''best'', ''bestvideo+bestaudio/best'',
        ''bestvideo[height<=2160]+bestaudio/best'', ''bestvideo[height<=1440]+bestaudio/best'',
        ''bestvideo[height<=1080]+bestaudio/best'', ''bestvideo[height<=720]+bestaudio/best'',
        ''bestvideo[height<=480]+bestaudio/best'', ''bestvideo[height<=360]+bestaudio/best'']"
  using probing_skips_and_continues
          [of example_env "''https://youtu.be/x''" test_formats test_opts "[]"
              "example_info Absent"]
        example_metadata example_worst_raises example_detected
  by simp

text \<open>
  C4. The formats of the first section of the menu have strictly decreasing heights, so no
  height occurs twice; each has a positive height and is the first entry of
  \<^verbatim>\<open>available_formats\<close> with its height; every positive height of \<^verbatim>\<open>available_formats\<close>
  occurs; and the menu prints, after its six opening lines, one numbered line for each of
  them in that order.
\<close>

theorem smart_section_unique_sorted:
  "sorted_wrt (\<lambda>a b. b < a) (map s_height (smart_section av))
   \<and> distinct (map s_height (smart_section av))
   \<and> (\<forall>f \<in> set (smart_section av).
        0 < s_height f \<and> find (\<lambda>g. s_height g = s_height f) av = Some f)
   \<and> s_height ` set (smart_section av) = {h \<in> s_height ` set av. 0 < h}
   \<and> (\<exists>rest. fst (select_quality_menu i av manual) =
        [Print (MsgTitle (title i)), Print (MsgDuration (duration i)),
         Print (MsgChannel (uploader i)), Print (MsgViews (view_count i)),
         Print MsgDetectedHeader, Print MsgSmartHeader]
        @ map (\<lambda>(k, f). Print (MsgSmartRow k f)) (enumerate 1 (smart_section av)) @ rest)"
proof (intro conjI ballI)
  show "sorted_wrt (\<lambda>a b. b < a) (map s_height (smart_section av))"
    by (rule smart_section_decreasing)
  show "distinct (map s_height (smart_section av))"
    by (rule smart_section_distinct)
  show "s_height ` set (smart_section av) = {h \<in> s_height ` set av. 0 < h}"
    by (simp add: smart_section_set unique_by_height_heights)
  show "\<exists>rest. fst (select_quality_menu i av manual) =
        [Print (MsgTitle (title i)), Print (MsgDuration (duration i)),
         Print (MsgChannel (uploader i)), Print (MsgViews (view_count i)),
         Print MsgDetectedHeader, Print MsgSmartHeader]
        @ map (\<lambda>(k, f). Print (MsgSmartRow k f)) (enumerate 1 (smart_section av)) @ rest"
    by (rule menu_smart_rows)
next
  fix f
  assume f: "f \<in> set (smart_section av)"
  then have u: "f \<in> set (unique_by_height av {} [])"
    by (simp add: smart_section_set)
  then have "s_height f \<in> s_height ` set (unique_by_height av {} [])" by blast
  then show "0 < s_height f" by (auto simp: unique_by_height_heights)
  show "find (\<lambda>g. s_height g = s_height f) av = Some f"
    using u by (rule unique_by_height_first)
qed

lemma example_section:
  "smart_section example_available =
     [example_smart ''bestvideo+bestaudio/best'' 1080, example_smart ''best'' 720]"
  by (simp add: smart_section_def unique_formats_def example_available_def example_smart_def)

theorem smart_section_unique_sorted_witness:
  "smart_section example_available =
     [example_smart ''bestvideo+bestaudio/best'' 1080, example_smart ''best'' 720]
   \<and> example_smart ''bestvideo+bestaudio/best'' 1080 \<in> set (smart_section example_available)
   \<and> 0 < s_height (example_smart ''bestvideo+bestaudio/best'' 1080)
   \<and> find (\<lambda>g. s_height g = s_height (example_smart ''bestvideo+bestaudio/best'' 1080))
        example_available = Some (example_smart ''bestvideo+bestaudio/best'' 1080)"
proof -
  have member: "example_smart ''bestvideo+bestaudio/best'' 1080
                  \<in> set (smart_section example_available)"
    by (simp add: example_section)
  have "\<forall>f \<in> set (smart_section example_available).
          0 < s_height f \<and> find (\<lambda>g. s_height g = s_height f) example_available = Some f"
    using smart_section_unique_sorted [of example_available] by blast
  then have "0 < s_height (example_smart ''bestvideo+bestaudio/best'' 1080)
      \<and> find (\<lambda>g. s_height g = s_height (example_smart ''bestvideo+bestaudio/best'' 1080))
           example_available = Some (example_smart ''bestvideo+bestaudio/best'' 1080)"
    using member by blast
  then show ?thesis using example_section member by blast
qed

text \<open>
  C7. The candidates are a constant list of nine pairs, from \<^verbatim>\<open>best\<close> down to
  \<^verbatim>\<open>bestvideo[height<=360]+bestaudio/best\<close>; when the metadata query answers,
  \<^verbatim>\<open>test_format_availability\<close> makes that query and then one probe for each candidate, in
  the order of the list, with the candidate as the \<^verbatim>\<open>format\<close> option.
\<close>

theorem fixed_probe_list:
  "length test_formats = 9
   \<and> map fst test_formats =
       [''best'', ''bestvideo+bestaudio/best'', ''worst'',
        ''bestvideo[height<=2160]+bestaudio/best'', ''bestvideo[height<=1440]+bestaudio/best'',
        ''bestvideo[height<=1080]+bestaudio/best'', ''bestvideo[height<=720]+bestaudio/best'',
        ''bestvideo[height<=480]+bestaudio/best'', ''bestvideo[height<=360]+bestaudio/best'']
   \<and> (extract_info E SmartInfo basic_opts u = Inr (Some i) \<longrightarrow>
        fst (test_format_availability E u) =
          Print MsgDetecting # ExtractInfo SmartInfo basic_opts u
            # map (\<lambda>c. ExtractInfo Probe (AList.update ''format'' (OStr (fst c)) test_opts) u)
                test_formats)"
proof (intro conjI impI)
  show "length test_formats = 9"
    by (simp add: test_formats_def)
  show "map fst test_formats =
       [''best'', ''bestvideo+bestaudio/best'', ''worst'',
        ''bestvideo[height<=2160]+bestaudio/best'', ''bestvideo[height<=1440]+bestaudio/best'',
        ''bestvideo[height<=1080]+bestaudio/best'', ''bestvideo[height<=720]+bestaudio/best'',
        ''bestvideo[height<=480]+bestaudio/best'', ''bestvideo[height<=360]+bestaudio/best'']"
    unfolding test_formats_def list.map fst_conv by (rule refl)
next
  assume "extract_info E SmartInfo basic_opts u = Inr (Some i)"
  then show "fst (test_format_availability E u) =
          Print MsgDetecting # ExtractInfo SmartInfo basic_opts u
            # map (\<lambda>c. ExtractInfo Probe (AList.update ''format'' (OStr (fst c)) test_opts) u)
                test_formats"
    by (simp add: test_format_availability_ok)
qed

theorem fixed_probe_list_witness:
  "extract_info example_env SmartInfo basic_opts ''https://youtu.be/x''
     = Inr (Some (example_info Absent))
   \<and> fst (test_format_availability example_env ''https://youtu.be/x'') =
       Print MsgDetecting # ExtractInfo SmartInfo basic_opts ''https://youtu.be/x''
         # map (\<lambda>c. ExtractInfo Probe (AList.update ''format'' (OStr (fst c)) test_opts)
                      ''https://youtu.be/x'') test_formats"
  using fixed_probe_list [of example_env "''https://youtu.be/x''" "example_info Absent"]
        example_metadata
  by blast

text \<open>
  C9. When the metadata query raises an exception, \<^verbatim>\<open>test_format_availability\<close> returns
  \<^verbatim>\<open>None\<close>; and whenever it returns \<^verbatim>\<open>None\<close>, \<^verbatim>\<open>select_quality\<close> raises nothing, asks
  nothing and reads no input: after the query of \<^verbatim>\<open>get_manual_formats\<close> it prints its error
  message and returns \<^verbatim>\<open>bestvideo+bestaudio/best\<close>.
\<close>

theorem detection_failure_fallback:
  "(extract_info E SmartInfo basic_opts u = Inl (Exception m) \<longrightarrow>
      snd (test_format_availability E u) = Inr None)
   \<and> (snd (test_format_availability E u) = Inr None \<longrightarrow>
        select_quality E u inp =
          (fst (test_format_availability E u)
             @ [ExtractInfo ManualInfo basic_opts u, Print MsgNoInfo],
           Inr (Some ''bestvideo+bestaudio/best''), inp)
        \<and> (\<forall>p. Input p \<notin> set (fst (select_quality E u inp))))"
proof (intro conjI impI)
  assume "extract_info E SmartInfo basic_opts u = Inl (Exception m)"
  then show "snd (test_format_availability E u) = Inr None"
    by (simp add: test_format_availability_def)
next
  assume none: "snd (test_format_availability E u) = Inr None"
  obtain ev1 where t: "test_format_availability E u = (ev1, Inr None)"
    using none by (cases "test_format_availability E u") auto
  obtain manual where g: "get_manual_formats E u = ([ExtractInfo ManualInfo basic_opts u], manual)"
    using get_manual_formats_trace [of E u] by (cases "get_manual_formats E u") auto
  show sq: "select_quality E u inp =
          (fst (test_format_availability E u)
             @ [ExtractInfo ManualInfo basic_opts u, Print MsgNoInfo],
           Inr (Some ''bestvideo+bestaudio/best''), inp)"
    by (simp add: select_quality_def t g)
  have "Input p \<notin> set ev1" for p
    using test_format_availability_events [of "Input p" E u] by (auto simp: t)
  then show "\<forall>p. Input p \<notin> set (fst (select_quality E u inp))"
    by (simp add: sq t)
qed

lemma failing_metadata:
  "extract_info failing_env SmartInfo basic_opts ''https://youtu.be/x''
     = Inl (Exception ''ERROR: unable to download'')"
  by (simp add: failing_env_def)

theorem detection_failure_fallback_witness:
  "extract_info failing_env SmartInfo basic_opts ''https://youtu.be/x''
     = Inl (Exception ''ERROR: unable to download'')
   \<and> snd (test_format_availability failing_env ''https://youtu.be/x'') = Inr None
   \<and> select_quality failing_env ''https://youtu.be/x'' [Line ''1''] =
       ([Print MsgDetecting, ExtractInfo SmartInfo basic_opts ''https://youtu.be/x'',
         Print (MsgDetectError ''ERROR: unable to download''),
         ExtractInfo ManualInfo basic_opts ''https://youtu.be/x'', Print MsgNoInfo],
        Inr (Some ''bestvideo+bestaudio/best''), [Line ''1''])"
proof -
  note fallback =
    detection_failure_fallback [of failing_env "''https://youtu.be/x''"
      "''ERROR: unable to download''" "[Line ''1'']"]
  have none: "snd (test_format_availability failing_env ''https://youtu.be/x'') = Inr None"
    using fallback failing_metadata by blast
  have trace: "fst (test_format_availability failing_env ''https://youtu.be/x'') =
      [Print MsgDetecting, ExtractInfo SmartInfo basic_opts ''https://youtu.be/x'',
       Print (MsgDetectError ''ERROR: unable to download'')]"
    by (simp add: test_format_availability_def failing_metadata)
  have "select_quality failing_env ''https://youtu.be/x'' [Line ''1''] =
          (fst (test_format_availability failing_env ''https://youtu.be/x'')
             @ [ExtractInfo ManualInfo basic_opts ''https://youtu.be/x'', Print MsgNoInfo],
           Inr (Some ''bestvideo+bestaudio/best''), [Line ''1''])"
    using fallback none by blast
  then show ?thesis using failing_metadata none trace by simp
qed

text \<open>
  C10. Whenever \<^verbatim>\<open>select_quality\<close> gets through the menu, the option list ends with the three
  quick options \<^verbatim>\<open>best\<close>, \<^verbatim>\<open>bestvideo+bestaudio/best\<close>, \<^verbatim>\<open>worst\<close>, whatever was detected,
  so it has at least three entries; and every prompt of \<^verbatim>\<open>select_quality\<close> offers at least
  three options.
\<close>

theorem menu_not_empty:
  "(\<forall>ev all_options. select_quality_menu i available manual = (ev, Inr all_options) \<longrightarrow>
      3 \<le> length all_options \<and>
      (\<exists>detected. all_options = detected @ [''best'', ''bestvideo+bestaudio/best'', ''worst'']))
   \<and> (\<forall>n. Input (PromptChoice n) \<in> set (fst (select_quality E u inp)) \<longrightarrow> 3 \<le> n)"
proof (intro conjI allI impI)
  fix ev all_options
  assume m: "select_quality_menu i available manual = (ev, Inr all_options)"
  from menu_ends_with_quick_options [OF m]
  show "\<exists>detected. all_options = detected @ [''best'', ''bestvideo+bestaudio/best'', ''worst'']"
    by (simp add: quick_options_def)
  then show "3 \<le> length all_options" by auto
next
  fix n
  assume "Input (PromptChoice n) \<in> set (fst (select_quality E u inp))"
  then show "3 \<le> n"
    using select_quality_events [of "Input (PromptChoice n)" E u inp] by auto
qed

lemma example_empty_menu:
  "select_quality_menu (example_info Absent) [] no_formats =
     ([Print (MsgTitle (Val ''Demo'')), Print (MsgDuration (Val 60)),
       Print (MsgChannel (Val ''Someone'')), Print (MsgViews (Val 1000)),
       Print MsgDetectedHeader, Print MsgSmartHeader, Print MsgQuickHeader,
       Print (MsgQuickRow 1 (snd (quick_options ! 0))),
       Print (MsgQuickRow 2 (snd (quick_options ! 1))),
       Print (MsgQuickRow 3 (snd (quick_options ! 2))), Print MsgNote],
      Inr [''best'', ''bestvideo+bestaudio/best'', ''worst''])"
  by (simp add: select_quality_menu_def and_then_def manual_section_def no_formats_def
                smart_section_def unique_formats_def quick_options_def quick_row_def
                example_info_def)

lemma example_prompt:
  "Input (PromptChoice 8)
     \<in> set (fst (select_quality example_env ''https://youtu.be/x'' [Line ''9'', Line ''2'']))"
  by code_simp

theorem menu_not_empty_witness:
  "snd (select_quality_menu (example_info Absent) [] no_formats)
     = Inr [''best'', ''bestvideo+bestaudio/best'', ''worst'']
   \<and> 3 \<le> length [''best'', ''bestvideo+bestaudio/best'', ''worst'']
   \<and> Input (PromptChoice 8)
       \<in> set (fst (select_quality example_env ''https://youtu.be/x'' [Line ''9'', Line ''2'']))
   \<and> (3::nat) \<le> 8"
proof -
  note menu = menu_not_empty [of "example_info Absent" "[]" no_formats example_env
                "''https://youtu.be/x''" "[Line ''9'', Line ''2'']"]
  have "3 \<le> length [''best'', ''bestvideo+bestaudio/best'', ''worst'']"
    using menu example_empty_menu by blast
  moreover have "(3::nat) \<le> 8"
    using menu example_prompt by blast
  ultimately show ?thesis
    using example_empty_menu example_prompt by simp
qed








text \<open>
  C6. When \<^verbatim>\<open>select_quality\<close> returns a selector, \<^verbatim>\<open>download_video\<close> without a format calls
  the library's download with the base options in which \<^verbatim>\<open>format\<close> is that very string,
  and with the URL it was given; any download call it makes is that one; an explicit
  format is passed on the same way; and the options differ from the base options at the
  key \<^verbatim>\<open>format\<close> only.
\<close>

theorem selector_passthrough:
  "(\<forall>ev sel left. select_quality E u inp = (ev, Inr (Some sel), left) \<longrightarrow>
      (\<exists>after r. download_video E self u None inp =
         (ev @ [Print (MsgStart (download_path self) sel),
                Download (AList.update ''format'' (OStr sel) (base_opts self)) [u]] @ after,
          r, left)))
   \<and> (\<forall>opts us. Download opts us \<in> set (fst (download_video E self u None inp)) \<longrightarrow>
        (\<exists>sel. fst (snd (select_quality E u inp)) = Inr (Some sel)
           \<and> opts = AList.update ''format'' (OStr sel) (base_opts self) \<and> us = [u]))
   \<and> (\<forall>sel. \<exists>after r. download_video E self u (Some sel) inp =
         ([Print (MsgStart (download_path self) sel),
           Download (AList.update ''format'' (OStr sel) (base_opts self)) [u]] @ after,
          r, inp))
   \<and> (\<forall>sel. map_of (AList.update ''format'' (OStr sel) (base_opts self)) ''format''
               = Some (OStr sel)
        \<and> (\<forall>k. k \<noteq> ''format'' \<longrightarrow>
              map_of (AList.update ''format'' (OStr sel) (base_opts self)) k
                = map_of (base_opts self) k))"
proof (intro conjI allI impI)
  fix ev sel left
  assume "select_quality E u inp = (ev, Inr (Some sel), left)"
  then have "chosen_format E u None inp = (ev, Inr (Some sel), left)"
    by (simp add: chosen_format_def)
  from download_video_chosen [OF this, of self]
  show "\<exists>after r. download_video E self u None inp =
         (ev @ [Print (MsgStart (download_path self) sel),
                Download (AList.update ''format'' (OStr sel) (base_opts self)) [u]] @ after,
          r, left)"
    by blast
next
  fix opts us
  assume d: "Download opts us \<in> set (fst (download_video E self u None inp))"
  obtain ev r left where c: "chosen_format E u None inp = (ev, r, left)"
    by (cases "chosen_format E u None inp")
  have sq: "select_quality E u inp = (ev, r, left)"
    using c by (simp add: chosen_format_def)
  have ev: "Download opts us \<notin> set ev"
    using chosen_format_events [of "Download opts us" E u None inp] by (auto simp: c)
  show "\<exists>sel. fst (snd (select_quality E u inp)) = Inr (Some sel)
           \<and> opts = AList.update ''format'' (OStr sel) (base_opts self) \<and> us = [u]"
  proof (cases "\<exists>sel. r = Inr (Some sel)")
    case True
    then obtain sel where r: "r = Inr (Some sel)" by blast
    obtain after r' where
      "download_video E self u None inp =
         (ev @ [Print (MsgStart (download_path self) sel),
                Download (AList.update ''format'' (OStr sel) (base_opts self)) [u]] @ after,
          r', left)"
      and "after = [] \<or> (\<exists>l. after = [Print l])"
      using download_video_chosen [of E u None inp ev sel left self] c r by blast
    then have "opts = AList.update ''format'' (OStr sel) (base_opts self) \<and> us = [u]"
      using d ev by auto
    then show ?thesis using sq r by auto
  next
    case False
    then obtain after where
      "fst (download_video E self u None inp) = ev @ after"
      and "after = [] \<or> (\<exists>l. after = [Print l])"
      using download_video_not_chosen [of E u None inp ev r left self] c by blast
    then show ?thesis using d ev by auto
  qed
next
  fix sel
  have "chosen_format E u (Some sel) inp = ([], Inr (Some sel), inp)"
    by (simp add: chosen_format_def)
  from download_video_chosen [OF this, of self]
  show "\<exists>after r. download_video E self u (Some sel) inp =
         ([Print (MsgStart (download_path self) sel),
           Download (AList.update ''format'' (OStr sel) (base_opts self)) [u]] @ after,
          r, inp)"
    by auto
next
  fix sel
  show "map_of (AList.update ''format'' (OStr sel) (base_opts self)) ''format''
          = Some (OStr sel)"
    by (simp add: AList.update_conv')
next
  fix sel k
  assume "k \<noteq> ''format''"
  then show "map_of (AList.update ''format'' (OStr sel) (base_opts self)) k
               = map_of (base_opts self) k"
    by (simp add: AList.update_conv')
qed

lemma example_selection:
  "select_quality example_env ''https://youtu.be/x'' [Line ''9'', Line ''2''] =
     (fst (select_quality example_env ''https://youtu.be/x'' [Line ''9'', Line ''2'']),
      Inr (Some ''best''), [])"
  by code_simp

theorem selector_passthrough_witness:
  "fst (snd (select_quality example_env ''https://youtu.be/x'' [Line ''9'', Line ''2'']))
     = Inr (Some ''best'')
   \<and> (\<exists>after r. download_video example_env (new_downloader ''./downloads'')
                   ''https://youtu.be/x'' None [Line ''9'', Line ''2''] =
         (fst (select_quality example_env ''https://youtu.be/x'' [Line ''9'', Line ''2''])
            @ [Print (MsgStart ''./downloads'' ''best''),
               Download (AList.update ''format'' (OStr ''best'')
                           (base_opts (new_downloader ''./downloads'')))
                 [''https://youtu.be/x'']] @ after,
          r, []))
   \<and> ''writesubtitles'' \<noteq> ''format''
   \<and> map_of (AList.update ''format'' (OStr ''best'')
               (base_opts (new_downloader ''./downloads''))) ''writesubtitles''
       = Some (OBool True)"
proof -
  let ?d = "new_downloader ''./downloads''"
  let ?inp = "[Line ''9'', Line ''2'']"
  note pass = selector_passthrough [of example_env "''https://youtu.be/x''" ?inp ?d]
  have path: "download_path ?d = ''./downloads''"
    by (simp add: new_downloader_def)
  have "\<exists>after r. download_video example_env ?d ''https://youtu.be/x'' None ?inp =
         (fst (select_quality example_env ''https://youtu.be/x'' ?inp)
            @ [Print (MsgStart (download_path ?d) ''best''),
               Download (AList.update ''format'' (OStr ''best'') (base_opts ?d))
                 [''https://youtu.be/x'']] @ after,
          r, [])"
    by (rule pass [THEN conjunct1, rule_format, OF example_selection])
  moreover have "map_of (AList.update ''format'' (OStr ''best'') (base_opts ?d))
                   ''writesubtitles'' = map_of (base_opts ?d) ''writesubtitles''"
    by (rule pass [THEN conjunct2, THEN conjunct2, THEN conjunct2, rule_format,
                   THEN conjunct2, rule_format]) simp
  moreover have "map_of (base_opts ?d) ''writesubtitles'' = Some (OBool True)"
    by (simp add: new_downloader_def)
  moreover have "fst (snd (select_quality example_env ''https://youtu.be/x'' ?inp))
                   = Inr (Some ''best'')"
    using example_selection by (metis fst_conv snd_conv)
  ultimately show ?thesis by (simp add: path)
qed

text \<open>
  What \<^verbatim>\<open>main\<close> tests is whether the URL contains \<^verbatim>\<open>youtube.com\<close> or \<^verbatim>\<open>youtu.be\<close>. A URL
  that is not empty, given on the command line or typed at the prompt (then stripped), is
  rejected exactly when it contains neither: \<^verbatim>\<open>main\<close> then prints the invalid-URL message
  and exits with status 1, and has done nothing else after the banner (and the prompt).
  A URL that contains one of the two passes: the next thing \<^verbatim>\<open>main\<close> does is to create the
  downloader.
\<close>

lemma main_substring_test:
  "(\<forall>u. args_url a = Some u \<and> u \<noteq> [] \<longrightarrow>
      (\<not> contains ''youtube.com'' u \<and> \<not> contains ''youtu.be'' u \<longrightarrow>
         main E a inp = ([Print MsgBanner, Print MsgInvalidURL], Exit 1))
      \<and> (contains ''youtube.com'' u \<or> contains ''youtu.be'' u \<longrightarrow>
           (\<exists>ev r. main E a inp = (Print MsgBanner # Mkdir (args_path a) # ev, r))))
   \<and> (\<forall>typed rest. (args_url a = None \<or> args_url a = Some []) \<and> strip typed \<noteq> [] \<longrightarrow>
      (\<not> contains ''youtube.com'' (strip typed) \<and> \<not> contains ''youtu.be'' (strip typed) \<longrightarrow>
         main E a (Line typed # rest)
           = ([Print MsgBanner, Input PromptURL, Print MsgInvalidURL], Exit 1))
      \<and> (contains ''youtube.com'' (strip typed) \<or> contains ''youtu.be'' (strip typed) \<longrightarrow>
           (\<exists>ev r. main E a (Line typed # rest)
              = (Print MsgBanner # Input PromptURL # Mkdir (args_path a) # ev, r))))"
proof (intro conjI allI impI)
  fix u
  assume given: "args_url a = Some u \<and> u \<noteq> []"
  {
    assume "\<not> contains ''youtube.com'' u \<and> \<not> contains ''youtu.be'' u"
    then show "main E a inp = ([Print MsgBanner, Print MsgInvalidURL], Exit 1)"
      using given by (simp add: main_given run_rejects)
  }
  {
    assume "contains ''youtube.com'' u \<or> contains ''youtu.be'' u"
    then obtain ev r where "run E a u inp = (Mkdir (args_path a) # ev, r)"
      using run_accepts by blast
    then show "\<exists>ev r. main E a inp = (Print MsgBanner # Mkdir (args_path a) # ev, r)"
      using given by (simp add: main_given)
  }
next
  fix typed rest
  assume asked: "(args_url a = None \<or> args_url a = Some []) \<and> strip typed \<noteq> []"
  {
    assume "\<not> contains ''youtube.com'' (strip typed) \<and> \<not> contains ''youtu.be'' (strip typed)"
    then show "main E a (Line typed # rest)
                 = ([Print MsgBanner, Input PromptURL, Print MsgInvalidURL], Exit 1)"
      using asked main_typed [of a typed E rest] by (simp add: run_rejects)
  }
  {
    assume "contains ''youtube.com'' (strip typed) \<or> contains ''youtu.be'' (strip typed)"
    then obtain ev r where "run E a (strip typed) rest = (Mkdir (args_path a) # ev, r)"
      using run_accepts by blast
    then show "\<exists>ev r. main E a (Line typed # rest)
                 = (Print MsgBanner # Input PromptURL # Mkdir (args_path a) # ev, r)"
      using asked main_typed [of a typed E rest] by simp
  }
qed

lemma vimeo_has_no_youtube:
  "\<not> contains ''youtube.com'' ''https://vimeo.com/1'' \<and> \<not> contains ''youtu.be'' ''https://vimeo.com/1''"
  by simp

lemma short_link_has_youtube: "contains ''youtu.be'' (strip '' https://youtu.be/x '')"
  by code_simp

lemma short_link_stripped: "strip '' https://youtu.be/x '' \<noteq> []"
  by code_simp

text \<open>
  C2. The claim is that every URL that is not of the video site is rejected before the
  downloader is created, and that every URL of the video site passes. The code's own
  texts say the same (\<^verbatim>\<open># Validar URL\<close>, the message that the URL must be of YouTube), and
  the code misses it: \<^verbatim>\<open>https://example.com/?ref=youtube.com\<close> is not a URL of the video
  site (its host is \<^verbatim>\<open>example.com\<close>), and \<^verbatim>\<open>main\<close> does not reject it; it creates the
  downloader and calls the download.
\<close>

theorem other_site_accepted:
  "\<not> spec_youtube_url ''https://example.com/?ref=youtube.com''
   \<and> \<not> contains ''youtu.be'' ''https://example.com/?ref=youtube.com''
   \<and> contains ''youtube.com'' ''https://example.com/?ref=youtube.com''
   \<and> main example_env (example_args (Some ''https://example.com/?ref=youtube.com'')) [] =
       ([Print MsgBanner, Mkdir ''./downloads'', Print (MsgStart ''./downloads'' ''best''),
         Download (AList.update ''format'' (OStr ''best'')
                     (base_opts (new_downloader ''./downloads'')))
           [''https://example.com/?ref=youtube.com''],
         Print MsgDone], Exit 0)"
  by code_simp

text \<open>The other way round, a URL of the video site written in capitals is rejected. An
  empty URL, also one typed as a no-break space, gets the message that a URL is required.\<close>

lemma capital_host_rejected:
  "spec_youtube_url ''https://WWW.YOUTUBE.COM/watch?v=abc''
   \<and> main example_env (example_args (Some ''https://WWW.YOUTUBE.COM/watch?v=abc'')) [] =
       ([Print MsgBanner, Print MsgInvalidURL], Exit 1)"
  by code_simp

lemma empty_url_required:
  "main example_env (example_args None) [Line ''  '']
     = ([Print MsgBanner, Input PromptURL, Print MsgURLRequired], Exit 1)
   \<and> main example_env (example_args None) [Line [CHR 0xC2, CHR 0xA0]]
     = ([Print MsgBanner, Input PromptURL, Print MsgURLRequired], Exit 1)"
  by code_simp

end
